theory Spec2Isabelle
  imports Main "HOL-Library.AList"
begin

section \<open>Python values, truthiness and exceptions\<close>

text \<open>
  The values that flow through the command system: \<open>None\<close>, the host framework's
  \<open>MISSING\<close> sentinel (a falsy singleton), booleans, integers, strings, tuples, lists,
  dicts, and any other object (a float, a set, an instance of a class): such an object is
  given by a number that identifies it and by the result of its truth test, which is
  false for \<open>0.0\<close> or an empty set and true for an object without \<open>__bool__\<close> and
  \<open>__len__\<close>. A dict of keyword arguments is an association list with distinct keys, in
  insertion order; \<open>AList.update\<close> is Python's \<open>d[k] = v\<close> (a new key goes last, an
  old key keeps its place and gets the new value).
\<close>

datatype pyval =
    PNone
  | PMissing
  | PBool bool
  | PInt int
  | PStr string
  | PTuple "pyval list"
  | PList "pyval list"
  | PDict "(pyval \<times> pyval) list"
  | PObj nat bool

fun truthy :: "pyval \<Rightarrow> bool" where
  "truthy PNone = False"
| "truthy PMissing = False"
| "truthy (PBool b) = b"
| "truthy (PInt i) = (i \<noteq> 0)"
| "truthy (PStr s) = (s \<noteq> [])"
| "truthy (PTuple xs) = (xs \<noteq> [])"
| "truthy (PList xs) = (xs \<noteq> [])"
| "truthy (PDict kvs) = (kvs \<noteq> [])"
| "truthy (PObj n t) = t"

text \<open>Python's \<open>a or b\<close> on values.\<close>

definition py_or :: "pyval \<Rightarrow> pyval \<Rightarrow> pyval" where
  "py_or a b = (if truthy a then a else b)"

text \<open>
  Exceptions with their messages. The messages of the source are given in full; the
  message of a TypeError that the interpreter raises for a call with the wrong number of
  arguments is shortened to the name of the callee and the number of parameters.
\<close>

datatype exn =
    ValueError string
  | TypeError string
  | KeyError string
  | AttributeError string
  | ImportError string
  | LookupError string
  | OtherError string

type_synonym kwargs = "(string \<times> pyval) list"

section \<open>Callables, signatures and the object store\<close>

text \<open>
  A routine (function, method or builtin) as \<open>_get_converter\<close> sees it: its display
  name (\<open>ipy.utils.get_object_name\<close>), \<open>__code__.co_argcount\<close> when it has a
  \<open>__code__\<close> attribute (the number of positional parameters of the code object), the
  kinds of the parameters of \<open>inspect.signature\<close> (or the exception it raises), and
  what calling it with positional arguments returns. Awaiting is transparent: \<open>invoke\<close>
  gives the final value of a synchronous or an asynchronous routine alike, which is what
  \<open>maybe_coroutine\<close> hands back.
\<close>

datatype kind =
    POSITIONAL_ONLY
  | POSITIONAL_OR_KEYWORD
  | VAR_POSITIONAL
  | KEYWORD_ONLY
  | VAR_KEYWORD

record routine =
  object_name :: string
  co_argcount :: "nat option"
  signature_kinds :: "exn + kind list"
  invoke :: "pyval list \<Rightarrow> exn + pyval"

text \<open>
  What an annotation or a converter reference can be, in the order \<open>_get_converter\<close>
  tests it: a \<open>typing.Annotated\<close> expression, an instance of the host framework's
  \<open>Converter\<close> protocol, a routine, or anything else (a class, a typing construct, a
  callable object that is no routine).
\<close>

datatype anno =
    Annotated nat
  | ConverterObj nat
  | Routine routine
  | OtherAnno nat

datatype option_type =
    SUB_COMMAND | SUB_COMMAND_GROUP | STRING | INTEGER | BOOLEAN | USER
  | CHANNEL | ROLE | MENTIONABLE | NUMBER | ATTACHMENT

text \<open>
  The host framework's \<open>SlashCommandOption\<close>, as far as introspection reads and writes
  it. A localised name is represented by its default-locale string; \<open>None\<close> is a name
  that tests false.
\<close>

record slash_option =
  opt_name :: "string option"
  opt_type :: "option_type option"
  opt_description :: pyval
  opt_required :: bool
  opt_channel_types :: "nat list"

text \<open>
  The parameter marker (\<open>slash_param.ParamInfo\<close>, whose source is not part of the
  files at hand): the fields the data model gives it. Introspection reads \<open>default\<close>,
  \<open>converter\<close> and \<open>_user_provided_type\<close> and calls \<open>generate_option\<close>, which is a
  parameter of the model. A marker object tests true.
\<close>

record param_info =
  pi_name :: "string option"
  pi_description :: pyval
  pi_default :: pyval
  pi_type :: "option_type option"
  pi_converter :: "anno option"
  pi_channel_types :: "nat list"
  pi_user_provided_type :: bool

text \<open>
  \<open>inspect.Parameter\<close>: the default is \<open>Parameter.empty\<close>, a marker object, or any
  other value.
\<close>

datatype param_default = Empty | Plain pyval | Marker param_info

record parameter =
  p_name :: string
  p_kind :: kind
  p_default :: param_default
  p_annotation :: anno

type_synonym signature = "(string \<times> parameter) list"

text \<open>
  Function objects are mutable: \<open>__defaults__\<close> and \<open>__kwdefaults__\<close> are assigned by
  the default-overwrite helper, so callables live in a store and are passed by address
  (the index in the store). A \<open>functools.partial\<close> object holds the address of the
  callable it wraps, its pre-bound positional arguments and its pre-bound keywords.
  Addresses outside the store do not occur in Python; the model answers them with an
  error so that every function is total.
\<close>

record function_obj =
  fn_name :: string
  fn_doc :: pyval
  fn_is_coroutine :: bool
  fn_defaults :: "pyval list option"
  fn_kwdefaults :: "kwargs option"
  fn_tansy_describe :: "kwargs option"

datatype obj =
    Function function_obj
  | Partial nat "pyval list" kwargs

type_synonym heap = "obj list"

definition deref :: "heap \<Rightarrow> nat \<Rightarrow> obj option" where
  "deref h r = (if r < length h then Some (h ! r) else None)"

text \<open>
  \<open>copy.copy\<close> of the standard library: function objects are registered there as
  atomic (\<open>types.FunctionType\<close> is copied by the identity), so the copy of a function
  is the same object. A partial object is rebuilt from its reduce value: a new partial
  object around the same wrapped callable, with the same arguments and keywords.
\<close>

definition copy_copy :: "heap \<Rightarrow> nat \<Rightarrow> (heap \<times> nat) option" where
  "copy_copy h r =
     (case deref h r of
        None \<Rightarrow> None
      | Some (Function f) \<Rightarrow> Some (h, r)
      | Some (Partial g args kw) \<Rightarrow> Some (h @ [Partial g args kw], length h))"

section \<open>The default-overwrite helper (slash\_commands.py, \_overwrite\_defaults)\<close>

text \<open>
  The test of the loop, \<^verbatim>\<open>old_kwarg_defaults.get(name) or parameters[name].kind == KEYWORD_ONLY\<close>:
  the first operand is the truth value of the old keyword-only default (a missing key
  gives \<open>None\<close>); the second operand is evaluated only when the first is false, and
  raises KeyError when the name has no parameter.
\<close>

definition dict_get_truthy :: "kwargs \<Rightarrow> string \<Rightarrow> bool" where
  "dict_get_truthy d name = (case map_of d name of None \<Rightarrow> False | Some v \<Rightarrow> truthy v)"

definition goes_to_kwdefaults :: "kwargs \<Rightarrow> signature \<Rightarrow> string \<Rightarrow> exn + bool" where
  "goes_to_kwdefaults old_kwarg_defaults parameters name =
     (if dict_get_truthy old_kwarg_defaults name then Inr True
      else (case map_of parameters name of
              None \<Rightarrow> Inl (KeyError name)
            | Some p \<Rightarrow> Inr (p_kind p = KEYWORD_ONLY)))"

text \<open>
  The loop \<^verbatim>\<open>for name, default in defaults.items()\<close> with its two accumulators.
\<close>

fun split_defaults ::
  "kwargs \<Rightarrow> signature \<Rightarrow> kwargs \<Rightarrow> pyval list \<Rightarrow> kwargs \<Rightarrow> exn + (pyval list \<times> kwargs)" where
  "split_defaults old ps [] new_defaults new_kwarg_defaults =
     Inr (new_defaults, new_kwarg_defaults)"
| "split_defaults old ps ((name, dflt) # rest) new_defaults new_kwarg_defaults =
     (case goes_to_kwdefaults old ps name of
        Inl e \<Rightarrow> Inl e
      | Inr True \<Rightarrow>
          split_defaults old ps rest new_defaults (AList.update name dflt new_kwarg_defaults)
      | Inr False \<Rightarrow>
          split_defaults old ps rest (new_defaults @ [dflt]) new_kwarg_defaults)"

text \<open>
  \<^verbatim>\<open>tuple(new_defaults) if new_defaults else None\<close> and
  \<^verbatim>\<open>new_kwarg_defaults or None\<close>: an empty collection is stored as \<open>None\<close>.
\<close>

definition none_if_empty :: "'a list \<Rightarrow> 'a list option" where
  "none_if_empty xs = (if xs \<noteq> [] then Some xs else None)"

text \<open>
  \<open>_overwrite_defaults(func, defaults, parameters)\<close>: the store after the call and the
  address returned, or the exception. The wrapped callable of a partial object must be
  a function object (reading \<open>__kwdefaults__\<close> on anything else is an AttributeError).
  A KeyError of the loop is raised before any assignment.
\<close>

definition overwrite_defaults ::
  "heap \<Rightarrow> nat \<Rightarrow> kwargs \<Rightarrow> signature \<Rightarrow> heap \<times> (exn + nat)" where
  "overwrite_defaults h func defaults parameters =
     (case copy_copy h func of
        None \<Rightarrow> (h, Inl (AttributeError ''__kwdefaults__''))
      | Some (h1, func_copy) \<Rightarrow>
          (let (func_to_parse, partial_func) =
                 (case h1 ! func_copy of
                    Partial g args kw \<Rightarrow> (g, True)
                  | Function f \<Rightarrow> (func_copy, False))
           in case deref h1 func_to_parse of
                Some (Function fo) \<Rightarrow>
                  (let old_kwarg_defaults = (case fn_kwdefaults fo of None \<Rightarrow> [] | Some d \<Rightarrow> d)
                   in case split_defaults old_kwarg_defaults parameters defaults [] [] of
                        Inl e \<Rightarrow> (h1, Inl e)
                      | Inr (new_defaults, new_kwarg_defaults) \<Rightarrow>
                          (let h2 = h1[func_to_parse := Function (fo
                                 \<lparr>fn_defaults := none_if_empty new_defaults,
                                  fn_kwdefaults := none_if_empty new_kwarg_defaults\<rparr>)]
                           in if partial_func
                              then (case h2 ! func_copy of
                                      Partial g args kw \<Rightarrow>
                                        (h2 @ [Partial func_to_parse args kw], Inr (length h2))
                                    | Function f \<Rightarrow> (h2, Inr func_to_parse))
                              else (h2, Inr func_to_parse)))
              | _ \<Rightarrow> (h1, Inl (AttributeError ''__kwdefaults__''))))"

text \<open>
  Observers used to state the properties of the helper. \<open>inner_function\<close> is the
  function object whose defaults a callable uses: the callable itself, or the callable a
  partial object wraps. \<open>old_kwarg_defaults_of\<close> is \<^verbatim>\<open>__kwdefaults__ or {}\<close>.
  \<open>keyword_only\<close> says that a name is a keyword-only parameter of the signature, and
  \<open>is_kw\<close> is the test of the loop for a name that does not raise. \<open>pre_bound\<close>
  gives the pre-bound arguments and keywords of a partial object.
\<close>

definition inner_function :: "heap \<Rightarrow> nat \<Rightarrow> function_obj option" where
  "inner_function h r =
     (case deref h r of
        Some (Function f) \<Rightarrow> Some f
      | Some (Partial g args kw) \<Rightarrow>
          (case deref h g of Some (Function f) \<Rightarrow> Some f | _ \<Rightarrow> None)
      | None \<Rightarrow> None)"

definition old_kwarg_defaults_of :: "function_obj \<Rightarrow> kwargs" where
  "old_kwarg_defaults_of fo = (case fn_kwdefaults fo of None \<Rightarrow> [] | Some d \<Rightarrow> d)"

definition keyword_only :: "signature \<Rightarrow> string \<Rightarrow> bool" where
  "keyword_only ps name =
     (case map_of ps name of None \<Rightarrow> False | Some p \<Rightarrow> p_kind p = KEYWORD_ONLY)"

definition is_kw :: "kwargs \<Rightarrow> signature \<Rightarrow> string \<Rightarrow> bool" where
  "is_kw old ps name = (dict_get_truthy old name \<or> keyword_only ps name)"

definition pre_bound :: "heap \<Rightarrow> nat \<Rightarrow> (pyval list \<times> kwargs) option" where
  "pre_bound h r =
     (case deref h r of
        Some (Partial g args kw) \<Rightarrow> Some (args, kw)
      | _ \<Rightarrow> None)"

section \<open>Converter normalization (slash\_commands.py, \_get\_converter)\<close>

text \<open>
  Lines 26-27: an \<open>Annotated\<close> expression is replaced by what
  \<open>utils.get_from_anno_type\<close> extracts from it (a helper of the repository whose
  source is not among the files at hand: a parameter, which may raise).
\<close>

definition unwrap_annotated :: "(nat \<Rightarrow> exn + anno) \<Rightarrow> anno \<Rightarrow> exn + anno" where
  "unwrap_annotated get_from_anno_type anno =
     (case anno of
        Annotated a \<Rightarrow> get_from_anno_type a
      | _ \<Rightarrow> Inr anno)"

text \<open>
  Lines 32-35: \<open>co_argcount\<close> of the code object when there is one, else the number of
  all parameters of \<open>inspect.signature\<close>, whatever their kind.
\<close>

definition num_params :: "routine \<Rightarrow> exn + nat" where
  "num_params anno =
     (case co_argcount anno of
        Some n \<Rightarrow> Inr n
      | None \<Rightarrow>
          (case signature_kinds anno of
             Inl e \<Rightarrow> Inl e
           | Inr ks \<Rightarrow> Inr (length ks)))"

text \<open>
  Lines 42-45, the wrapper \<^verbatim>\<open>async def _one_arg_convert(_, arg)\<close>: a function of two
  positional parameters that calls the wrapped routine on the second one.
\<close>

definition one_arg_convert :: "routine \<Rightarrow> routine" where
  "one_arg_convert anno =
     \<lparr>object_name = ''_one_arg_convert'',
      co_argcount = Some 2,
      signature_kinds = Inr [POSITIONAL_OR_KEYWORD, POSITIONAL_OR_KEYWORD],
      invoke = (\<lambda>args. case args of
                [u, arg] \<Rightarrow> invoke anno [arg]
              | _ \<Rightarrow> Inl (TypeError ''_one_arg_convert() takes 2 positional arguments''))\<rparr>"

text \<open>
  \<open>_get_converter(anno, name)\<close>. \<open>get_converter_function\<close> is the host framework's
  \<open>BaseCommand._get_converter_function\<close>. The result \<open>Inr None\<close> is the return value
  \<open>None\<close>.
\<close>

definition get_converter ::
  "(nat \<Rightarrow> exn + anno) \<Rightarrow> (nat \<Rightarrow> string \<Rightarrow> exn + routine option) \<Rightarrow>
   anno \<Rightarrow> string \<Rightarrow> exn + routine option" where
  "get_converter get_from_anno_type get_converter_function anno0 name =
     (case unwrap_annotated get_from_anno_type anno0 of
        Inl e \<Rightarrow> Inl e
      | Inr anno \<Rightarrow>
          (case anno of
             ConverterObj c \<Rightarrow> get_converter_function c name
           | Routine r \<Rightarrow>
               (case num_params r of
                  Inl e \<Rightarrow> Inl e
                | Inr n \<Rightarrow>
                    if n = 2 then Inr (Some r)
                    else if n = 1 then Inr (Some (one_arg_convert r))
                    else if n = 0 then
                      Inl (ValueError (object_name r @ '' for '' @ name @
                             '' has 0 positional arguments, which is unsupported.''))
                    else
                      Inl (ValueError (object_name r @ '' for '' @ name @
                             '' has more than 2 positional arguments, which is unsupported.'')))
           | _ \<Rightarrow> Inr None))"

text \<open>
  The positional-parameter count of a routine as a callable: the parameters of its
  signature that can be passed positionally. Used only to state properties.
\<close>

definition positional_parameter_count :: "kind list \<Rightarrow> nat" where
  "positional_parameter_count ks =
     length (filter (\<lambda>k. k = POSITIONAL_ONLY \<or> k = POSITIONAL_OR_KEYWORD) ks)"

section \<open>Commands (slash\_commands.py, TansySlashCommand)\<close>

text \<open>
  \<open>TansySlashCommandParameter\<close>; \<open>optional\<close> is its property
  \<^verbatim>\<open>self.default != ipy.MISSING\<close>. The \<open>type\<close> field is never assigned by the source
  and stays \<open>None\<close>.
\<close>

record cmd_param =
  cp_name :: string
  cp_argument_name :: string
  cp_default :: pyval
  cp_type :: "nat option"
  cp_converter :: "routine option"

definition optional :: "cmd_param \<Rightarrow> bool" where
  "optional p = (cp_default p \<noteq> PMissing)"

text \<open>
  The command object: the fields of the host framework's slash command that the source
  reads or passes on, and the two fields the subclass adds (\<open>parameters\<close>, a dict in
  insertion order, and \<open>_inspect_signature\<close>). The callback is the address of a
  callable in the store, or \<open>None\<close>.
\<close>

record command =
  cmd_name :: pyval
  cmd_description :: pyval
  cmd_group_name :: pyval
  cmd_group_description :: pyval
  cmd_sub_cmd_name :: pyval
  cmd_sub_cmd_description :: pyval
  cmd_default_member_permissions :: pyval
  cmd_dm_permission :: bool
  cmd_nsfw :: bool
  cmd_scopes :: "pyval list"
  cmd_checks :: "pyval list"
  cmd_callback :: "nat option"
  cmd_has_binding :: bool
  cmd_options :: "slash_option list"
  cmd_parameters :: "(string \<times> cmd_param) list"
  cmd_inspect_signature :: "signature option"

text \<open>
  What introspection uses from outside the two source files: the annotation utilities of
  the repository (\<open>utils\<close>) and the marker's \<open>generate_option\<close>, whose sources are not
  among the files at hand, and the host framework and standard library
  (\<open>_get_converter_function\<close>, \<open>attrs.validate\<close> on an option and on the command,
  \<open>inspect.signature\<close> of the callback with one or two leading arguments pre-bound).
\<close>

record env =
  utils_get_option :: "anno \<Rightarrow> exn + option_type"
  utils_is_optional :: "anno \<Rightarrow> bool"
  utils_resolve_channel_types :: "anno \<Rightarrow> nat list"
  utils_get_from_anno_type :: "nat \<Rightarrow> exn + anno"
  generate_option :: "param_info \<Rightarrow> slash_option"
  get_converter_function :: "nat \<Rightarrow> string \<Rightarrow> exn + routine option"
  validate_option :: "slash_option \<Rightarrow> exn option"
  validate_command :: "command \<Rightarrow> exn option"
  inspect_signature :: "heap \<Rightarrow> nat \<Rightarrow> nat \<Rightarrow> exn + signature"

subsection \<open>\_overwrite\_with\_parameters\<close>

text \<open>
  The dict comprehension
  \<^verbatim>\<open>{p.argument_name: p.default for p in self.parameters.values() if p.optional}\<close>.
\<close>

definition dict_of :: "(string \<times> pyval) list \<Rightarrow> kwargs" where
  "dict_of xs = foldl (\<lambda>d e. AList.update (fst e) (snd e) d) [] xs"

definition parameter_defaults :: "command \<Rightarrow> kwargs" where
  "parameter_defaults self =
     dict_of (map (\<lambda>p. (cp_argument_name p, cp_default p))
                (filter optional (map snd (cmd_parameters self))))"

text \<open>
  The store and the command after the call, and the exception raised, if any. The
  arguments of \<open>_overwrite_defaults\<close> are evaluated first: a command without a cached
  signature raises AttributeError there, before anything is changed. The callback is
  assigned only when the helper returns.
\<close>

definition overwrite_with_parameters :: "heap \<Rightarrow> command \<Rightarrow> (heap \<times> command) \<times> exn option" where
  "overwrite_with_parameters h self =
     (let defaults = parameter_defaults self
      in case cmd_inspect_signature self of
           None \<Rightarrow> ((h, self), Some (AttributeError ''parameters''))
         | Some sig \<Rightarrow>
             (case cmd_callback self of
                None \<Rightarrow> ((h, self), Some (AttributeError ''__kwdefaults__''))
              | Some cb \<Rightarrow>
                  (case overwrite_defaults h cb defaults sig of
                     (h', Inl e) \<Rightarrow> ((h', self), Some e)
                   | (h', Inr r) \<Rightarrow> ((h', self\<lparr>cmd_callback := Some r\<rparr>), None))))"

subsection \<open>\_parse\_parameters: one parameter of the signature\<close>

text \<open>Lines 232-236: the marker, when the parameter's default is one.\<close>

definition param_info_of :: "parameter \<Rightarrow> param_info option" where
  "param_info_of param = (case p_default param of Marker pi \<Rightarrow> Some pi | _ \<Rightarrow> None)"

text \<open>
  \<^verbatim>\<open>utils.get_option(param.annotation)\<close> inside \<^verbatim>\<open>try ... except ValueError\<close>: a
  ValueError is replaced by the one with the message of the source.
\<close>

definition get_option_for :: "env \<Rightarrow> parameter \<Rightarrow> exn + option_type" where
  "get_option_for env param =
     (case utils_get_option env (p_annotation param) of
        Inl (ValueError m) \<Rightarrow> Inl (ValueError (''Invalid/no provided type for '' @ p_name param))
      | Inl e \<Rightarrow> Inl e
      | Inr t \<Rightarrow> Inr t)"

text \<open>
  Lines 238-247. \<^verbatim>\<open>ipy.SlashCommandOption(name=param.name, type=option_type)\<close> leaves
  the other fields at the host framework's defaults (required, the universal fallback
  description, no channel types).
\<close>

definition initial_option :: "env \<Rightarrow> parameter \<Rightarrow> exn + slash_option" where
  "initial_option env param =
     (case param_info_of param of
        Some pi \<Rightarrow> Inr (generate_option env pi)
      | None \<Rightarrow>
          (case get_option_for env param of
             Inl e \<Rightarrow> Inl e
           | Inr option_type \<Rightarrow>
               Inr \<lparr>opt_name = Some (p_name param), opt_type = Some option_type,
                    opt_description = PStr ''No Description Set'', opt_required = True,
                    opt_channel_types = []\<rparr>))"

text \<open>Lines 249-254: the resolved name, and the description override.\<close>

definition resolved_name :: "slash_option \<Rightarrow> parameter \<Rightarrow> string" where
  "resolved_name option param = (case opt_name option of Some n \<Rightarrow> n | None \<Rightarrow> p_name param)"

definition apply_describe :: "kwargs \<Rightarrow> slash_option \<Rightarrow> parameter \<Rightarrow> slash_option" where
  "apply_describe describes option param =
     (let option1 = option\<lparr>opt_name := Some (resolved_name option param)\<rparr>
      in case map_of describes (resolved_name option param) of
           None \<Rightarrow> option1
         | Some desc \<Rightarrow> if truthy desc then option1\<lparr>opt_description := desc\<rparr> else option1)"

text \<open>Lines 256-262.\<close>

definition resolve_type :: "env \<Rightarrow> slash_option \<Rightarrow> parameter \<Rightarrow> exn + slash_option" where
  "resolve_type env option param =
     (case opt_type option of
        Some t \<Rightarrow> Inr option
      | None \<Rightarrow>
          (case get_option_for env param of
             Inl e \<Rightarrow> Inl e
           | Inr t \<Rightarrow> Inr (option\<lparr>opt_type := Some t\<rparr>)))"

text \<open>
  Lines 264-284: the option and the operational default. First the \<open>if\<close>/\<open>elif\<close>/\<open>else\<close>
  on the marker and the plain default, then the separate \<open>if\<close> for an optional
  annotation.
\<close>

definition determine_default ::
  "(anno \<Rightarrow> bool) \<Rightarrow> parameter \<Rightarrow> slash_option \<Rightarrow> slash_option \<times> pyval" where
  "determine_default is_optional param option =
     (let (option1, dflt) =
            (case p_default param of
               Marker pi \<Rightarrow> (option, pi_default pi)
             | Plain v \<Rightarrow> (option\<lparr>opt_required := False\<rparr>, v)
             | Empty \<Rightarrow> (option, PMissing))
      in if dflt = PMissing
            \<and> (case param_info_of param of None \<Rightarrow> True | Some pi \<Rightarrow> \<not> pi_user_provided_type pi)
            \<and> is_optional (p_annotation param)
         then (option1\<lparr>opt_required := False\<rparr>, PNone)
         else (option1, dflt))"

text \<open>
  The determination as the specification words it, read as one chain: (a) a marker
  that declares a default gives that default, and the option is as the marker generated
  it; (b) without a marker, a plain default is used and the option is marked not
  required; (c) else, for an optional annotation and no marker that supplied a type
  explicitly, the option is marked not required and the default is \<open>None\<close>; (d)
  otherwise the option is as it was built and the default is the no-default sentinel.
  Used only to compare with \<open>determine_default\<close>.
\<close>

definition stated_default ::
  "(anno \<Rightarrow> bool) \<Rightarrow> parameter \<Rightarrow> slash_option \<Rightarrow> slash_option \<times> pyval" where
  "stated_default is_optional param option =
     (case p_default param of
        Marker pi \<Rightarrow>
          if pi_default pi \<noteq> PMissing then (option, pi_default pi)
          else if \<not> pi_user_provided_type pi \<and> is_optional (p_annotation param)
          then (option\<lparr>opt_required := False\<rparr>, PNone)
          else (option, PMissing)
      | Plain v \<Rightarrow> (option\<lparr>opt_required := False\<rparr>, v)
      | Empty \<Rightarrow>
          if is_optional (p_annotation param)
          then (option\<lparr>opt_required := False\<rparr>, PNone)
          else (option, PMissing))"

text \<open>Lines 286-291.\<close>

definition resolve_channels :: "env \<Rightarrow> parameter \<Rightarrow> slash_option \<Rightarrow> slash_option" where
  "resolve_channels env param option =
     (if param_info_of param \<noteq> None \<and> opt_type option = Some CHANNEL
         \<and> opt_channel_types option = []
      then option\<lparr>opt_channel_types := utils_resolve_channel_types env (p_annotation param)\<rparr>
      else option)"

text \<open>Lines 293-302: the converter stored in the parameter record.\<close>

definition resolve_converter :: "env \<Rightarrow> parameter \<Rightarrow> exn + routine option" where
  "resolve_converter env param =
     (case (case param_info_of param of None \<Rightarrow> None | Some pi \<Rightarrow> pi_converter pi) of
        Some conv \<Rightarrow>
          (case get_converter (utils_get_from_anno_type env) (get_converter_function env)
                  conv (p_name param) of
             Inl e \<Rightarrow> Inl e
           | Inr (Some convert_func) \<Rightarrow> Inr (Some convert_func)
           | Inr None \<Rightarrow>
               Inl (ValueError (''The converter for '' @ p_name param @
                 '' is invalid. Please make sure it is either a Converter-like class or a function.'')))
      | None \<Rightarrow>
          get_converter (utils_get_from_anno_type env) (get_converter_function env)
            (p_annotation param) (p_name param))"

text \<open>
  The body of the loop for one parameter: \<open>Inr None\<close> is \<open>continue\<close>, \<open>Inr (Some
  (option, cmd_param))\<close> is what gets appended and recorded.
\<close>

definition parse_param ::
  "env \<Rightarrow> kwargs \<Rightarrow> parameter \<Rightarrow> exn + (slash_option \<times> cmd_param) option" where
  "parse_param env describes param =
     (if p_kind param = VAR_KEYWORD then Inr None
      else if p_kind param \<noteq> POSITIONAL_OR_KEYWORD \<and> p_kind param \<noteq> KEYWORD_ONLY then
        Inl (ValueError ''All parameters must be able to be used via keyword arguments.'')
      else
        (case initial_option env param of
           Inl e \<Rightarrow> Inl e
         | Inr option0 \<Rightarrow>
             (case resolve_type env (apply_describe describes option0 param) param of
                Inl e \<Rightarrow> Inl e
              | Inr option2 \<Rightarrow>
                  (let (option3, dflt) = determine_default (utils_is_optional env) param option2;
                       option4 = resolve_channels env param option3
                   in case resolve_converter env param of
                        Inl e \<Rightarrow> Inl e
                      | Inr converter \<Rightarrow>
                          (case validate_option env option4 of
                             Some e \<Rightarrow> Inl e
                           | None \<Rightarrow>
                               Inr (Some (option4,
                                 \<lparr>cp_name = resolved_name option0 param,
                                  cp_argument_name = p_name param,
                                  cp_default = dflt,
                                  cp_type = None,
                                  cp_converter = converter\<rparr>)))))))"

subsection \<open>\_parse\_parameters\<close>

text \<open>
  The loop over the parameters of the signature: the command is updated parameter by
  parameter, and keeps what was appended before an exception.
\<close>

fun parse_loop :: "env \<Rightarrow> kwargs \<Rightarrow> parameter list \<Rightarrow> command \<Rightarrow> command \<times> exn option" where
  "parse_loop env describes [] self = (self, None)"
| "parse_loop env describes (param # rest) self =
     (case parse_param env describes param of
        Inl e \<Rightarrow> (self, Some e)
      | Inr None \<Rightarrow> parse_loop env describes rest self
      | Inr (Some (option, cp)) \<Rightarrow>
          parse_loop env describes rest
            (self\<lparr>cmd_options := cmd_options self @ [option],
                  cmd_parameters := AList.update (cp_name cp) cp (cmd_parameters self)\<rparr>))"

text \<open>
  \<^verbatim>\<open>getattr(self.callback, "__tansy_describe__", {})\<close>: the table a function object
  carries; a partial object has no such attribute of its own.
\<close>

definition tansy_describe :: "heap \<Rightarrow> nat \<Rightarrow> kwargs" where
  "tansy_describe h cb =
     (case deref h cb of
        Some (Function f) \<Rightarrow> (case fn_tansy_describe f of None \<Rightarrow> [] | Some d \<Rightarrow> d)
      | _ \<Rightarrow> [])"

text \<open>
  \<open>_parse_parameters()\<close>: the store and the command after the call, and the exception
  raised, if any.
\<close>

definition parse_parameters :: "env \<Rightarrow> heap \<Rightarrow> command \<Rightarrow> (heap \<times> command) \<times> exn option" where
  "parse_parameters env h self =
     (case cmd_callback self of
        None \<Rightarrow> ((h, self), None)
      | Some cb \<Rightarrow>
          if cmd_parameters self \<noteq> [] then overwrite_with_parameters h self
          else
            (let self1 = self\<lparr>cmd_options := []\<rparr>
             in case (case cmd_inspect_signature self1 of
                        Some sig \<Rightarrow> Inr (self1, sig)
                      | None \<Rightarrow>
                          (case inspect_signature env h cb (if cmd_has_binding self1 then 2 else 1) of
                             Inl e \<Rightarrow> Inl e
                           | Inr sig \<Rightarrow> Inr (self1\<lparr>cmd_inspect_signature := Some sig\<rparr>, sig))) of
                  Inl e \<Rightarrow> ((h, self1), Some e)
                | Inr (self2, sig) \<Rightarrow>
                    (case parse_loop env (tansy_describe h cb) (map snd sig) self2 of
                       (self3, Some e) \<Rightarrow> ((h, self3), Some e)
                     | (self3, None) \<Rightarrow>
                         (case validate_command env self3 of
                            Some e \<Rightarrow> ((h, self3), Some e)
                          | None \<Rightarrow> overwrite_with_parameters h self3))))"

subsection \<open>call\_callback\<close>

text \<open>
  The invocation context: the object itself (handed to converters and to the callback as
  an opaque value) and its \<open>kwargs\<close> attribute, the already-decoded keyword arguments
  in the order of the incoming mapping.
\<close>

record interaction_context =
  ctx_object :: pyval
  ctx_kwargs :: kwargs

text \<open>
  Lines 337-340: \<^verbatim>\<open>await maybe_coroutine(param.converter, ctx, value)\<close> when the
  parameter has a converter, the raw value otherwise.
\<close>

definition convert_value :: "cmd_param \<Rightarrow> pyval \<Rightarrow> pyval \<Rightarrow> exn + pyval" where
  "convert_value param ctx v =
     (case cp_converter param of
        Some conv \<Rightarrow> invoke conv [ctx, v]
      | None \<Rightarrow> Inr v)"

text \<open>
  The loop of lines 330-341 over \<open>ctx.kwargs.items()\<close>, with \<open>new_kwargs\<close> as
  accumulator; the first exception of a converter ends it.
\<close>

fun remap_kwargs :: "(string \<times> cmd_param) list \<Rightarrow> pyval \<Rightarrow> kwargs \<Rightarrow> kwargs \<Rightarrow> exn + kwargs" where
  "remap_kwargs ps ctx [] new_kwargs = Inr new_kwargs"
| "remap_kwargs ps ctx ((key, v) # rest) new_kwargs =
     (case map_of ps key of
        None \<Rightarrow> remap_kwargs ps ctx rest (AList.update key v new_kwargs)
      | Some param \<Rightarrow>
          (case convert_value param ctx v of
             Inl e \<Rightarrow> Inl e
           | Inr converted \<Rightarrow>
               remap_kwargs ps ctx rest
                 (AList.update (cp_argument_name param) converted new_kwargs)))"

text \<open>
  \<open>call_callback(callback, ctx)\<close>. A callback takes positional arguments and keyword
  arguments; \<open>call_with_binding\<close> is the host framework's method of the command, which
  calls the callback with the bound instance in front when there is one.
\<close>

definition call_callback ::
  "(command \<Rightarrow> (pyval list \<Rightarrow> kwargs \<Rightarrow> exn + pyval) \<Rightarrow> pyval list \<Rightarrow> kwargs \<Rightarrow> exn + pyval) \<Rightarrow>
   command \<Rightarrow> (pyval list \<Rightarrow> kwargs \<Rightarrow> exn + pyval) \<Rightarrow> interaction_context \<Rightarrow> exn + pyval" where
  "call_callback call_with_binding self callback ctx =
     (if cmd_parameters self = [] then callback [ctx_object ctx] (ctx_kwargs ctx)
      else
        (case remap_kwargs (cmd_parameters self) (ctx_object ctx) (ctx_kwargs ctx) [] of
           Inl e \<Rightarrow> Inl e
         | Inr new_kwargs \<Rightarrow> call_with_binding self callback [ctx_object ctx] new_kwargs))"

text \<open>
  The keyword under which an incoming key is written to \<open>new_kwargs\<close>, and the value
  (or the converter's exception) written there. Used only to state properties.
\<close>

definition target_key :: "(string \<times> cmd_param) list \<Rightarrow> string \<Rightarrow> string" where
  "target_key ps key = (case map_of ps key of None \<Rightarrow> key | Some param \<Rightarrow> cp_argument_name param)"

definition delivered_value ::
  "(string \<times> cmd_param) list \<Rightarrow> pyval \<Rightarrow> string \<Rightarrow> pyval \<Rightarrow> exn + pyval" where
  "delivered_value ps ctx key v =
     (case map_of ps key of None \<Rightarrow> Inr v | Some param \<Rightarrow> convert_value param ctx v)"

subsection \<open>subcommand\<close>

text \<open>
  \<open>asyncio.iscoroutinefunction\<close> looks through partial objects at the wrapped function;
  \<open>__doc__\<close> of a function object is its documentation string or \<open>None\<close>, and
  \<open>__doc__\<close> of a partial object is the documentation of the class \<open>functools.partial\<close>
  (the text of Python 3.11, with its two line breaks).
\<close>

definition iscoroutinefunction :: "heap \<Rightarrow> nat \<Rightarrow> bool" where
  "iscoroutinefunction h c =
     (case inner_function h c of None \<Rightarrow> False | Some f \<Rightarrow> fn_is_coroutine f)"

definition partial_doc :: string where
  "partial_doc =
     ''partial(func, *args, **keywords) - new function with partial application'' @ [CHR 0x0A] @
     ''    of the given arguments and keywords.'' @ [CHR 0x0A]"

definition doc_of :: "heap \<Rightarrow> nat \<Rightarrow> pyval" where
  "doc_of h c =
     (case deref h c of
        Some (Function f) \<Rightarrow> fn_doc f
      | Some (Partial g args kw) \<Rightarrow> PStr partial_doc
      | None \<Rightarrow> PNone)"

text \<open>
  \<open>self.subcommand(...)\<close> returns the inner function \<open>wrapper\<close>, a closure over
  \<open>self\<close> and the arguments. The closure is a record of the captured variables;
  \<open>sub_cmd_description\<close> is declared \<open>nonlocal\<close> and assigned by the wrapper, so
  applying the wrapper returns the closure as it is afterwards. A name or description is
  a string, \<open>None\<close> or \<open>MISSING\<close>.
\<close>

record subcommand_closure =
  cl_self :: command
  cl_sub_cmd_name :: pyval
  cl_group_name :: pyval
  cl_sub_cmd_description :: pyval
  cl_group_description :: pyval
  cl_nsfw :: bool
  cl_inherit_checks :: bool

definition subcommand ::
  "command \<Rightarrow> pyval \<Rightarrow> pyval \<Rightarrow> pyval \<Rightarrow> pyval \<Rightarrow> bool \<Rightarrow> bool \<Rightarrow> subcommand_closure" where
  "subcommand self sub_cmd_name group_name sub_cmd_description group_description
     nsfw inherit_checks =
     \<lparr>cl_self = self, cl_sub_cmd_name = sub_cmd_name, cl_group_name = group_name,
      cl_sub_cmd_description = sub_cmd_description, cl_group_description = group_description,
      cl_nsfw = nsfw, cl_inherit_checks = inherit_checks\<rparr>"

text \<open>
  Lines 380-393: the keyword arguments of the constructor call, as a command record; the
  fields the source does not pass have the defaults of the class.
\<close>

definition subcommand_arguments :: "subcommand_closure \<Rightarrow> nat \<Rightarrow> command" where
  "subcommand_arguments cl call =
     \<lparr>cmd_name = cmd_name (cl_self cl),
      cmd_description = cmd_description (cl_self cl),
      cmd_group_name = py_or (cl_group_name cl) (cmd_group_name (cl_self cl)),
      cmd_group_description =
        py_or (cl_group_description cl) (cmd_group_description (cl_self cl)),
      cmd_sub_cmd_name = cl_sub_cmd_name cl,
      cmd_sub_cmd_description = cl_sub_cmd_description cl,
      cmd_default_member_permissions = cmd_default_member_permissions (cl_self cl),
      cmd_dm_permission = cmd_dm_permission (cl_self cl),
      cmd_nsfw = cl_nsfw cl,
      cmd_scopes = cmd_scopes (cl_self cl),
      cmd_checks = (if cl_inherit_checks cl then cmd_checks (cl_self cl) else []),
      cmd_callback = Some call,
      cmd_has_binding = False,
      cmd_options = [],
      cmd_parameters = [],
      cmd_inspect_signature = None\<rparr>"

text \<open>
  \<open>wrapper(call)\<close>, lines 372-393: the closure after the call and the exception raised
  or the new command. \<open>host_init\<close> is the host framework's part of the constructor (its
  converters, validators and post-initialisation), applied to the arguments the source
  passes. The source hands the base command's own \<open>checks\<close> and \<open>scopes\<close> lists to
  the constructor, which may extend them in place, so \<open>host_init\<close> also says what the
  base command is afterwards; the closure then holds that command. Before the
  constructor is called, nothing is assigned to the base command.
\<close>

definition wrapper ::
  "(command \<Rightarrow> command \<Rightarrow> command \<times> (exn + command)) \<Rightarrow> heap \<Rightarrow> subcommand_closure \<Rightarrow> nat \<Rightarrow>
   subcommand_closure \<times> (exn + command)" where
  "wrapper host_init h cl call =
     (if \<not> iscoroutinefunction h call then (cl, Inl (TypeError ''Subcommand must be coroutine''))
      else
        (let cl1 = (if cl_sub_cmd_description cl = PMissing
                    then cl\<lparr>cl_sub_cmd_description :=
                              py_or (doc_of h call) (PStr ''No Description Set'')\<rparr>
                    else cl);
             (self1, res) = host_init (cl_self cl1) (subcommand_arguments cl1 call)
         in (cl1\<lparr>cl_self := self1\<rparr>, res)))"

section \<open>Fast-serialization transport patch (speedup/orjson\_serialize.py)\<close>

text \<open>
  Python's codec registry, as far as \<open>bytes.decode\<close> needs it here: the encoding name
  is lower-cased, hyphens and spaces become underscores, and the result is looked up among
  the registered codecs and their aliases. The table lists the Unicode transformation
  formats and the two single-byte codecs every Python has; no codec is registered under
  the name \<open>utf_9\<close>.
\<close>

datatype codec = UTF_7 | UTF_8 | UTF_16 | UTF_32 | ASCII | LATIN_1

definition lower_char :: "char \<Rightarrow> char" where
  "lower_char c =
     (let n = (of_char c :: nat) in if 65 \<le> n \<and> n \<le> 90 then char_of (n + 32) else c)"

definition normalize_encoding :: "string \<Rightarrow> string" where
  "normalize_encoding enc =
     map (\<lambda>c. if c = CHR ''-'' \<or> c = CHR '' '' then CHR ''_'' else lower_char c) enc"

definition codec_table :: "(string \<times> codec) list" where
  "codec_table =
     [(''utf_7'', UTF_7), (''utf7'', UTF_7), (''u7'', UTF_7),
      (''utf_8'', UTF_8), (''utf8'', UTF_8), (''u8'', UTF_8), (''utf'', UTF_8),
      (''utf_16'', UTF_16), (''utf16'', UTF_16), (''u16'', UTF_16),
      (''utf_32'', UTF_32), (''utf32'', UTF_32), (''u32'', UTF_32),
      (''ascii'', ASCII), (''us_ascii'', ASCII), (''646'', ASCII),
      (''latin_1'', LATIN_1), (''latin1'', LATIN_1), (''iso_8859_1'', LATIN_1),
      (''iso8859_1'', LATIN_1), (''l1'', LATIN_1)]"

definition codecs_lookup :: "string \<Rightarrow> exn + codec" where
  "codecs_lookup enc =
     (case map_of codec_table (normalize_encoding enc) of
        None \<Rightarrow> Inl (LookupError (''unknown encoding: '' @ enc))
      | Some c \<Rightarrow> Inr c)"

text \<open>
  \<open>bytes.decode(encoding)\<close>: the codec is looked up first; \<open>decode_with\<close> is the
  decoder of a found codec (it may itself raise on malformed input).
\<close>

definition bytes_decode ::
  "(codec \<Rightarrow> nat list \<Rightarrow> exn + string) \<Rightarrow> nat list \<Rightarrow> string \<Rightarrow> exn + string" where
  "bytes_decode decode_with bs enc =
     (case codecs_lookup enc of
        Inl e \<Rightarrow> Inl e
      | Inr c \<Rightarrow> decode_with c bs)"

text \<open>
  \<^verbatim>\<open>def orjson_dumps_handler(obj): return orjson.dumps(obj).decode("utf-9")\<close>

  \<open>dumps\<close> is the fast codec's encoder (an external dependency): it returns bytes or
  raises.
\<close>

definition orjson_dumps_handler ::
  "('o \<Rightarrow> exn + nat list) \<Rightarrow> (codec \<Rightarrow> nat list \<Rightarrow> exn + string) \<Rightarrow> 'o \<Rightarrow> exn + string" where
  "orjson_dumps_handler dumps decode_with obj =
     (case dumps obj of
        Inl e \<Rightarrow> Inl e
      | Inr bs \<Rightarrow> bytes_decode decode_with bs ''utf-9'')"

text \<open>
  The client object, as far as \<open>login\<close> touches it: the private session, which is
  absent until the inherited login has run, and the session's \<open>_json_serialize\<close> slot.
  \<open>ToBeOrJsonHTTP.login\<close> calls the inherited login without awaiting it: what it gets
  is the coroutine object (\<open>super_login self token\<close>, the host framework's, a
  parameter), and the client is as before. It then assigns the handler to the slot of
  the session, which raises AttributeError when there is no session, and returns the
  coroutine object.
\<close>

record 'o session =
  json_serialize :: "'o \<Rightarrow> exn + string"

record 'o http_client =
  session :: "'o session option"

definition login ::
  "('o http_client \<Rightarrow> string \<Rightarrow> 'r) \<Rightarrow> ('o \<Rightarrow> exn + nat list) \<Rightarrow>
   (codec \<Rightarrow> nat list \<Rightarrow> exn + string) \<Rightarrow> 'o http_client \<Rightarrow> string \<Rightarrow>
   'o http_client \<times> (exn + 'r)" where
  "login super_login dumps decode_with self token =
     (let to_return = super_login self token
      in case session self of
           None \<Rightarrow> (self, Inl (AttributeError ''_json_serialize''))
         | Some sn \<Rightarrow>
             (self\<lparr>session := Some (sn\<lparr>json_serialize := orjson_dumps_handler dumps decode_with\<rparr>)\<rparr>,
              Inr to_return))"

text \<open>
  Module state: the module-level name \<open>OrJsonHTTP\<close> and the function bound to
  \<open>HTTPClient.__init__\<close> (function objects by number). Loading the module binds
  \<open>OrJsonHTTP\<close> to the subclass when \<open>import orjson\<close> succeeds and leaves it \<open>None\<close>
  on \<open>ImportError\<close>. The subclass defines no \<open>__init__\<close> of its own, so
  \<open>OrJsonHTTP.__init__\<close> is whatever \<open>HTTPClient.__init__\<close> is at that moment.
\<close>

datatype http_class = ToBeOrJsonHTTP

record http_module =
  OrJsonHTTP :: "http_class option"
  HTTPClient_init :: nat

definition load_module :: "bool \<Rightarrow> nat \<Rightarrow> http_module" where
  "load_module orjson_importable host_init =
     \<lparr>OrJsonHTTP = (if orjson_importable then Some ToBeOrJsonHTTP else None),
      HTTPClient_init = host_init\<rparr>"

fun class_init :: "http_module \<Rightarrow> http_class \<Rightarrow> nat" where
  "class_init m ToBeOrJsonHTTP = HTTPClient_init m"

text \<open>\<open>patch()\<close>: the state after the call, and the exception raised, if any.\<close>

definition patch :: "http_module \<Rightarrow> http_module \<times> exn option" where
  "patch m =
     (case OrJsonHTTP m of
        None \<Rightarrow> (m, Some (ImportError ''orjson is not installed.''))
      | Some c \<Rightarrow> (m\<lparr>HTTPClient_init := class_init m c\<rparr>, None))"

section \<open>Example inputs\<close>

text \<open>
  \<^verbatim>\<open>async def cmd(ctx, a=Option(), b=9, *, c=Option(), z=3)\<close>: the two markers are
  the objects 7 and 8. Its signature with \<open>ctx\<close> pre-bound has two
  positional-or-keyword and two keyword-only parameters.
\<close>

definition example_parameter :: "string \<Rightarrow> kind \<Rightarrow> parameter" where
  "example_parameter n k =
     \<lparr>p_name = n, p_kind = k, p_default = Empty, p_annotation = OtherAnno 0\<rparr>"

definition example_function :: function_obj where
  "example_function =
     \<lparr>fn_name = ''cmd'', fn_doc = PNone, fn_is_coroutine = True,
      fn_defaults = Some [PObj 7 True, PInt 9],
      fn_kwdefaults = Some [(''c'', PObj 8 True), (''z'', PInt 3)],
      fn_tansy_describe = None\<rparr>"

definition example_signature :: signature where
  "example_signature =
     [(''a'', example_parameter ''a'' POSITIONAL_OR_KEYWORD),
      (''b'', example_parameter ''b'' POSITIONAL_OR_KEYWORD),
      (''c'', example_parameter ''c'' KEYWORD_ONLY),
      (''z'', example_parameter ''z'' KEYWORD_ONLY)]"

text \<open>
  An environment for running introspection on examples: the annotations 0, 1 and 2 stand
  for \<open>str\<close>, \<open>Optional[str]\<close> and \<open>int\<close>; an option generated from a marker takes
  the marker's fields and is required when the marker declares no default; every option
  and command passes validation; the signature of every callback is the one of
  \<^verbatim>\<open>async def greet(ctx, who: Optional[str] = Option(), n: int = 3)\<close> with \<open>ctx\<close>
  pre-bound.
\<close>

definition example_marker :: param_info where
  "example_marker =
     \<lparr>pi_name = None, pi_description = PStr ''No Description Set'', pi_default = PMissing,
      pi_type = None, pi_converter = None, pi_channel_types = [],
      pi_user_provided_type = False\<rparr>"

definition greet_signature :: signature where
  "greet_signature =
     [(''who'', \<lparr>p_name = ''who'', p_kind = POSITIONAL_OR_KEYWORD,
                 p_default = Marker example_marker, p_annotation = OtherAnno 1\<rparr>),
      (''n'', \<lparr>p_name = ''n'', p_kind = POSITIONAL_OR_KEYWORD,
               p_default = Plain (PInt 3), p_annotation = OtherAnno 2\<rparr>)]"

definition greet_function :: function_obj where
  "greet_function =
     \<lparr>fn_name = ''greet'', fn_doc = PStr ''Greets somebody.'', fn_is_coroutine = True,
      fn_defaults = Some [PObj 7 True, PInt 3], fn_kwdefaults = None, fn_tansy_describe = None\<rparr>"

definition example_env :: env where
  "example_env =
     \<lparr>utils_get_option = (\<lambda>a. case a of
          OtherAnno n \<Rightarrow> (if n = 0 \<or> n = 1 then Inr STRING
                          else if n = 2 then Inr INTEGER
                          else Inl (ValueError ''unsupported annotation''))
        | _ \<Rightarrow> Inl (ValueError ''unsupported annotation'')),
      utils_is_optional = (\<lambda>a. case a of OtherAnno n \<Rightarrow> n = 1 | _ \<Rightarrow> False),
      utils_resolve_channel_types = (\<lambda>a. []),
      utils_get_from_anno_type = (\<lambda>a. Inr (OtherAnno a)),
      generate_option = (\<lambda>pi.
         \<lparr>opt_name = pi_name pi, opt_type = pi_type pi, opt_description = pi_description pi,
          opt_required = (pi_default pi = PMissing), opt_channel_types = pi_channel_types pi\<rparr>),
      get_converter_function = (\<lambda>c name. Inr None),
      validate_option = (\<lambda>option. None),
      validate_command = (\<lambda>self. None),
      inspect_signature = (\<lambda>h cb n. Inr greet_signature)\<rparr>"

definition greet_command :: command where
  "greet_command =
     \<lparr>cmd_name = PStr ''greet'', cmd_description = PStr ''Greets somebody.'',
      cmd_group_name = PNone, cmd_group_description = PStr ''No Description Set'',
      cmd_sub_cmd_name = PNone, cmd_sub_cmd_description = PStr ''No Description Set'',
      cmd_default_member_permissions = PNone, cmd_dm_permission = True, cmd_nsfw = False,
      cmd_scopes = [PInt 0], cmd_checks = [], cmd_callback = Some 0, cmd_has_binding = False,
      cmd_options = [], cmd_parameters = [], cmd_inspect_signature = None\<rparr>"

text \<open>
  The command \<open>greet_command\<close> after its first introspection in \<open>example_env\<close>.
\<close>

definition greet_introspected :: command where
  "greet_introspected =
     greet_command
       \<lparr>cmd_options :=
          [\<lparr>opt_name = Some ''who'', opt_type = Some STRING,
            opt_description = PStr ''No Description Set'', opt_required = False,
            opt_channel_types = []\<rparr>,
           \<lparr>opt_name = Some ''n'', opt_type = Some INTEGER,
            opt_description = PStr ''No Description Set'', opt_required = False,
            opt_channel_types = []\<rparr>],
        cmd_parameters :=
          [(''who'', \<lparr>cp_name = ''who'', cp_argument_name = ''who'', cp_default = PNone,
                      cp_type = None, cp_converter = None\<rparr>),
           (''n'', \<lparr>cp_name = ''n'', cp_argument_name = ''n'', cp_default = PInt 3,
                    cp_type = None, cp_converter = None\<rparr>)],
        cmd_inspect_signature := Some greet_signature\<rparr>"

text \<open>
  A builtin routine of an extension module with the signature
  \<^verbatim>\<open>parse(value, /, *, strict=False)\<close>: no code object, one positional parameter and
  one keyword-only parameter. It returns its argument.
\<close>

definition example_builtin :: routine where
  "example_builtin =
     \<lparr>object_name = ''parse'', co_argcount = None,
      signature_kinds = Inr [POSITIONAL_ONLY, KEYWORD_ONLY],
      invoke = (\<lambda>args. case args of
                  [v] \<Rightarrow> Inr v
                | _ \<Rightarrow> Inl (TypeError ''parse() takes exactly one positional argument''))\<rparr>"

text \<open>
  A plain function of one positional parameter:
  \<^verbatim>\<open>def twice(value): if not value: raise ValueError("empty"); return (value, value)\<close>.
\<close>

definition twice :: routine where
  "twice =
     \<lparr>object_name = ''twice'', co_argcount = Some 1,
      signature_kinds = Inr [POSITIONAL_OR_KEYWORD],
      invoke = (\<lambda>args. case args of
                  [v] \<Rightarrow> if truthy v then Inr (PTuple [v, v]) else Inl (ValueError ''empty'')
                | _ \<Rightarrow> Inl (TypeError ''twice() takes 1 positional argument''))\<rparr>"

text \<open>
  A parameter table that maps the option \<open>amount\<close> to the argument \<open>qty\<close>, without and
  with a converter; a callback that returns the tuple of its positional arguments followed
  by its keyword names and values; and \<open>call_with_binding\<close> of a command without a
  bound instance.
\<close>

definition amount_table :: "routine option \<Rightarrow> (string \<times> cmd_param) list" where
  "amount_table conv =
     [(''amount'', \<lparr>cp_name = ''amount'', cp_argument_name = ''qty'', cp_default = PMissing,
                    cp_type = None, cp_converter = conv\<rparr>)]"

definition echo_callback :: "pyval list \<Rightarrow> kwargs \<Rightarrow> exn + pyval" where
  "echo_callback args kw = Inr (PTuple (args @ concat (map (\<lambda>e. [PStr (fst e), snd e]) kw)))"

definition unbound_call_with_binding ::
  "command \<Rightarrow> (pyval list \<Rightarrow> kwargs \<Rightarrow> exn + pyval) \<Rightarrow> pyval list \<Rightarrow> kwargs \<Rightarrow> exn + pyval" where
  "unbound_call_with_binding self callback args kw = callback args kw"

text \<open>
  \<^verbatim>\<open>async def pair(ctx, a: Optional[str] = "x", b: Optional[str] = "")\<close>; the
  signature of \<^verbatim>\<open>functools.partial(pair, None, a="x")\<close>, in which the parameters from
  the pre-bound keyword on are keyword-only; and the signature of
  \<^verbatim>\<open>functools.partial(pair, None)\<close> once \<open>pair.__defaults__\<close> is \<open>None\<close>.
\<close>

definition pair_function :: function_obj where
  "pair_function =
     \<lparr>fn_name = ''pair'', fn_doc = PNone, fn_is_coroutine = True,
      fn_defaults = Some [PStr ''x'', PStr []], fn_kwdefaults = None,
      fn_tansy_describe = None\<rparr>"

definition pair_signature_bound :: signature where
  "pair_signature_bound =
     [(''a'', \<lparr>p_name = ''a'', p_kind = KEYWORD_ONLY, p_default = Plain (PStr ''x''),
               p_annotation = OtherAnno 1\<rparr>),
      (''b'', \<lparr>p_name = ''b'', p_kind = KEYWORD_ONLY, p_default = Plain (PStr []),
               p_annotation = OtherAnno 1\<rparr>)]"

definition pair_signature :: signature where
  "pair_signature =
     [(''a'', \<lparr>p_name = ''a'', p_kind = POSITIONAL_OR_KEYWORD, p_default = Empty,
               p_annotation = OtherAnno 1\<rparr>),
      (''b'', \<lparr>p_name = ''b'', p_kind = POSITIONAL_OR_KEYWORD, p_default = Empty,
               p_annotation = OtherAnno 1\<rparr>)]"

text \<open>
  The bound method \<open>parser.parse\<close> of \<^verbatim>\<open>def parse(self, value): return value\<close>: its
  \<open>__code__\<close> is the one of the function, whose argument count includes \<open>self\<close>; its
  signature has the one parameter \<open>value\<close>, and it is called with one argument.
\<close>

definition bound_parse :: routine where
  "bound_parse =
     \<lparr>object_name = ''parse'', co_argcount = Some 2,
      signature_kinds = Inr [POSITIONAL_OR_KEYWORD],
      invoke = (\<lambda>args. case args of
                  [v] \<Rightarrow> Inr v
                | _ \<Rightarrow> Inl (TypeError ''parse() takes 2 positional arguments''))\<rparr>"

text \<open>
  A second coroutine with a documentation string of its own, one without documentation
  string, and a host constructor that accepts its arguments as they are and leaves the
  base command alone.
\<close>

definition wave_function :: function_obj where
  "wave_function =
     \<lparr>fn_name = ''wave'', fn_doc = PStr ''Waves.'', fn_is_coroutine = True,
      fn_defaults = None, fn_kwdefaults = None, fn_tansy_describe = None\<rparr>"

definition silent_function :: function_obj where
  "silent_function =
     \<lparr>fn_name = ''silent'', fn_doc = PNone, fn_is_coroutine = True,
      fn_defaults = None, fn_kwdefaults = None, fn_tansy_describe = None\<rparr>"

definition plain_host_init :: "command \<Rightarrow> command \<Rightarrow> command \<times> (exn + command)" where
  "plain_host_init self args = (self, Inr args)"

section \<open>Properties\<close>

text \<open>
  C8. When the fast JSON codec was not importable at load time, \<open>patch()\<close> raises
  ImportError with message exactly "orjson is not installed." and the module state
  (in particular the function bound to the HTTP client's constructor) is what it was.
\<close>

theorem patch_codec_unavailable:
  "patch (load_module False host_init) =
     (load_module False host_init, Some (ImportError ''orjson is not installed.''))"
  by (simp add: patch_def load_module_def)

subsection \<open>The default-overwrite helper\<close>

text \<open>Assigning to a key that the dict does not have appends the entry.\<close>

lemma update_fresh: "k \<notin> fst ` set al \<Longrightarrow> AList.update k v al = al @ [(k, v)]"
  by (induction al) auto

lemma goes_to_kwdefaults_is_kw:
  "dict_get_truthy old n \<or> n \<in> fst ` set ps \<Longrightarrow> goes_to_kwdefaults old ps n = Inr (is_kw old ps n)"
  by (auto simp: goes_to_kwdefaults_def is_kw_def keyword_only_def map_of_eq_None_iff split: option.splits)

lemma split_defaults_eq:
  "distinct (map fst ds) \<Longrightarrow> fst ` set ds \<inter> fst ` set nk = {} \<Longrightarrow>
   (\<forall>n \<in> fst ` set ds. dict_get_truthy old n \<or> n \<in> fst ` set ps) \<Longrightarrow>
   split_defaults old ps ds nd nk =
     Inr (nd @ map snd (filter (\<lambda>e. \<not> is_kw old ps (fst e)) ds),
          nk @ filter (\<lambda>e. is_kw old ps (fst e)) ds)"
proof (induction ds arbitrary: nd nk)
  case Nil
  then show ?case by simp
next
  case (Cons e ds)
  obtain n d where e: "e = (n, d)" by (cases e)
  have g: "goes_to_kwdefaults old ps n = Inr (is_kw old ps n)"
    using Cons.prems(3) e by (intro goes_to_kwdefaults_is_kw) auto
  have fresh: "n \<notin> fst ` set nk" using Cons.prems(2) e by auto
  have d': "distinct (map fst ds)" using Cons.prems(1) by simp
  have ok: "\<forall>n \<in> fst ` set ds. dict_get_truthy old n \<or> n \<in> fst ` set ps"
    using Cons.prems(3) by auto
  show ?case
  proof (cases "is_kw old ps n")
    case True
    have disj: "fst ` set ds \<inter> fst ` set (nk @ [(n, d)]) = {}"
      using Cons.prems(1,2) e by auto
    show ?thesis
      using Cons.IH[OF d' disj ok, of nd] True g e fresh
      by (simp add: update_fresh)
  next
    case False
    have disj: "fst ` set ds \<inter> fst ` set nk = {}"
      using Cons.prems(2) by auto
    show ?thesis
      using Cons.IH[OF d' disj ok, of "nd @ [d]"] False g e
      by simp
  qed
qed

lemma overwrite_defaults_function:
  assumes "deref h func = Some (Function fo)"
    and "distinct (map fst defaults)"
    and "\<forall>n \<in> fst ` set defaults.
           dict_get_truthy (old_kwarg_defaults_of fo) n \<or> n \<in> fst ` set ps"
  shows "overwrite_defaults h func defaults ps =
     (h[func := Function (fo
          \<lparr>fn_defaults := none_if_empty
             (map snd (filter (\<lambda>e. \<not> is_kw (old_kwarg_defaults_of fo) ps (fst e)) defaults)),
           fn_kwdefaults := none_if_empty
             (filter (\<lambda>e. is_kw (old_kwarg_defaults_of fo) ps (fst e)) defaults)\<rparr>)],
      Inr func)"
proof -
  have lt: "func < length h" and at: "h ! func = Function fo"
    using assms(1) by (auto simp: deref_def split: if_splits)
  have sp: "split_defaults (old_kwarg_defaults_of fo) ps defaults [] [] =
      Inr ([] @ map snd (filter (\<lambda>e. \<not> is_kw (old_kwarg_defaults_of fo) ps (fst e)) defaults),
           [] @ filter (\<lambda>e. is_kw (old_kwarg_defaults_of fo) ps (fst e)) defaults)"
    using assms(2,3) by (intro split_defaults_eq) auto
  show ?thesis
    using assms(1) at sp
    by (simp add: overwrite_defaults_def copy_copy_def old_kwarg_defaults_of_def)
qed

lemma overwrite_defaults_partial:
  assumes "deref h func = Some (Partial g args kw)"
    and "deref h g = Some (Function fo)"
    and "distinct (map fst defaults)"
    and "\<forall>n \<in> fst ` set defaults.
           dict_get_truthy (old_kwarg_defaults_of fo) n \<or> n \<in> fst ` set ps"
  shows "overwrite_defaults h func defaults ps =
     ((h @ [Partial g args kw])[g := Function (fo
          \<lparr>fn_defaults := none_if_empty
             (map snd (filter (\<lambda>e. \<not> is_kw (old_kwarg_defaults_of fo) ps (fst e)) defaults)),
           fn_kwdefaults := none_if_empty
             (filter (\<lambda>e. is_kw (old_kwarg_defaults_of fo) ps (fst e)) defaults)\<rparr>)]
        @ [Partial g args kw],
      Inr (Suc (length h)))"
proof -
  have lt: "g < length h" and at: "h ! g = Function fo"
    using assms(2) by (auto simp: deref_def split: if_splits)
  have d1: "deref (h @ [Partial g args kw]) g = Some (Function fo)"
    using lt at by (simp add: deref_def nth_append)
  have sp: "split_defaults (old_kwarg_defaults_of fo) ps defaults [] [] =
      Inr ([] @ map snd (filter (\<lambda>e. \<not> is_kw (old_kwarg_defaults_of fo) ps (fst e)) defaults),
           [] @ filter (\<lambda>e. is_kw (old_kwarg_defaults_of fo) ps (fst e)) defaults)"
    using assms(3,4) by (intro split_defaults_eq) auto
  have ne: "g \<noteq> length h" using lt by simp
  show ?thesis
    using assms(1) d1 sp lt ne
    by (simp add: overwrite_defaults_def copy_copy_def old_kwarg_defaults_of_def
        nth_append nth_list_update)
qed

lemma overwrite_defaults_inner:
  assumes "inner_function h func = Some fo"
    and "distinct (map fst defaults)"
    and "\<forall>n \<in> fst ` set defaults.
           dict_get_truthy (old_kwarg_defaults_of fo) n \<or> n \<in> fst ` set ps"
  shows "\<exists>h' r. overwrite_defaults h func defaults ps = (h', Inr r) \<and>
     inner_function h' r = Some (fo
          \<lparr>fn_defaults := none_if_empty
             (map snd (filter (\<lambda>e. \<not> is_kw (old_kwarg_defaults_of fo) ps (fst e)) defaults)),
           fn_kwdefaults := none_if_empty
             (filter (\<lambda>e. is_kw (old_kwarg_defaults_of fo) ps (fst e)) defaults)\<rparr>) \<and>
     pre_bound h' r = pre_bound h func"
proof (cases "deref h func")
  case None
  then show ?thesis using assms(1) by (simp add: inner_function_def)
next
  case (Some ob)
  show ?thesis
  proof (cases ob)
    case (Function f)
    then have d: "deref h func = Some (Function fo)"
      using Some assms(1) by (simp add: inner_function_def)
    then have lt: "func < length h" by (auto simp: deref_def split: if_splits)
    show ?thesis
      using overwrite_defaults_function[OF d assms(2,3)] lt d
      by (simp add: inner_function_def pre_bound_def deref_def)
  next
    case (Partial g args kw)
    then have d: "deref h func = Some (Partial g args kw)" using Some by simp
    have dg: "deref h g = Some (Function fo)"
      using assms(1) d by (auto simp: inner_function_def split: option.splits obj.splits)
    have lt: "g < length h" using dg by (auto simp: deref_def split: if_splits)
    show ?thesis
      using overwrite_defaults_partial[OF d dg assms(2,3)] lt d
      by (simp add: inner_function_def pre_bound_def deref_def nth_append)
  qed
qed

text \<open>
  C10. The helper replaces the defaults, it does not merge them. Whenever the loop
  raises no KeyError (every supplied name has an old keyword-only default that tests
  true or a parameter in the signature), the call returns, and in the function object
  the result uses, the positional defaults are exactly the values of the supplied
  entries for which the test of the loop is false, in the order of the mapping, and the
  keyword-only defaults are exactly the supplied entries for which it is true. A
  collection that would be empty is stored as \<open>None\<close>: the positional defaults when
  every entry goes to the keyword-only ones, the keyword-only defaults when none does.
  The old defaults do not enter the result: no name outside the supplied mapping has a
  keyword-only default afterwards. The witness runs the helper on \<open>cmd\<close>, which has
  two positional and two keyword-only defaults, with entries for both collections, for
  one of them only, and with no entry at all.
\<close>

theorem overwrite_defaults_replaces_defaults:
  assumes "inner_function h func = Some fo"
    and "distinct (map fst defaults)"
    and "\<forall>n \<in> fst ` set defaults.
           dict_get_truthy (old_kwarg_defaults_of fo) n \<or> n \<in> fst ` set parameters"
  shows "\<exists>h' r fo'. overwrite_defaults h func defaults parameters = (h', Inr r)
      \<and> inner_function h' r = Some fo'
      \<and> fn_defaults fo' =
          (if \<forall>e \<in> set defaults. goes_to_kwdefaults (old_kwarg_defaults_of fo) parameters (fst e) = Inr True
           then None
           else Some (map snd (filter
                  (\<lambda>e. goes_to_kwdefaults (old_kwarg_defaults_of fo) parameters (fst e) = Inr False)
                  defaults)))
      \<and> fn_kwdefaults fo' =
          (if \<forall>e \<in> set defaults. goes_to_kwdefaults (old_kwarg_defaults_of fo) parameters (fst e) = Inr False
           then None
           else Some (filter
                  (\<lambda>e. goes_to_kwdefaults (old_kwarg_defaults_of fo) parameters (fst e) = Inr True)
                  defaults))"
proof -
  let ?old = "old_kwarg_defaults_of fo"
  let ?pos = "map snd (filter (\<lambda>e. \<not> is_kw ?old parameters (fst e)) defaults)"
  let ?kws = "filter (\<lambda>e. is_kw ?old parameters (fst e)) defaults"
  obtain h' r where res: "overwrite_defaults h func defaults parameters = (h', Inr r)"
    and inner: "inner_function h' r =
      Some (fo\<lparr>fn_defaults := none_if_empty ?pos, fn_kwdefaults := none_if_empty ?kws\<rparr>)"
    using overwrite_defaults_inner[OF assms] by blast
  have g: "\<And>e. e \<in> set defaults \<Longrightarrow>
      goes_to_kwdefaults ?old parameters (fst e) = Inr (is_kw ?old parameters (fst e))"
    using assms(3) by (intro goes_to_kwdefaults_is_kw) auto
  have fT: "filter (\<lambda>e. goes_to_kwdefaults ?old parameters (fst e) = Inr True) defaults = ?kws"
    by (rule filter_cong) (auto simp: g)
  have fF: "filter (\<lambda>e. goes_to_kwdefaults ?old parameters (fst e) = Inr False) defaults
      = filter (\<lambda>e. \<not> is_kw ?old parameters (fst e)) defaults"
    by (rule filter_cong) (auto simp: g)
  have aT: "(\<forall>e \<in> set defaults. goes_to_kwdefaults ?old parameters (fst e) = Inr True) = (?pos = [])"
    by (auto simp: g filter_empty_conv)
  have aF: "(\<forall>e \<in> set defaults. goes_to_kwdefaults ?old parameters (fst e) = Inr False) = (?kws = [])"
    by (auto simp: g filter_empty_conv)
  define fo' where
    "fo' = fo\<lparr>fn_defaults := none_if_empty ?pos, fn_kwdefaults := none_if_empty ?kws\<rparr>"
  have c0: "inner_function h' r = Some fo'" using inner by (simp add: fo'_def)
  have c1: "fn_defaults fo' =
          (if \<forall>e \<in> set defaults. goes_to_kwdefaults ?old parameters (fst e) = Inr True
           then None
           else Some (map snd (filter
                  (\<lambda>e. goes_to_kwdefaults ?old parameters (fst e) = Inr False) defaults)))"
    unfolding aT fF by (simp add: fo'_def none_if_empty_def)
  have c2: "fn_kwdefaults fo' =
          (if \<forall>e \<in> set defaults. goes_to_kwdefaults ?old parameters (fst e) = Inr False
           then None
           else Some (filter
                  (\<lambda>e. goes_to_kwdefaults ?old parameters (fst e) = Inr True) defaults))"
    unfolding aF fT by (simp add: fo'_def none_if_empty_def)
  from res c0 c1 c2 show ?thesis by blast
qed

theorem overwrite_defaults_replaces_defaults_witness:
  "inner_function [Function example_function] 0 = Some example_function
   \<and> (\<exists>h' r fo'.
         overwrite_defaults [Function example_function] 0 [(''a'', PInt 5), (''c'', PStr ''x'')]
           example_signature = (h', Inr r)
       \<and> inner_function h' r = Some fo'
       \<and> fn_defaults fo' = Some [PInt 5]
       \<and> fn_kwdefaults fo' = Some [(''c'', PStr ''x'')])
   \<and> (\<exists>h' r fo'.
         overwrite_defaults [Function example_function] 0 [(''a'', PInt 5)]
           example_signature = (h', Inr r)
       \<and> inner_function h' r = Some fo'
       \<and> fn_defaults fo' = Some [PInt 5]
       \<and> fn_kwdefaults fo' = None)
   \<and> (\<exists>h' r fo'.
         overwrite_defaults [Function example_function] 0 [(''c'', PStr ''x'')]
           example_signature = (h', Inr r)
       \<and> inner_function h' r = Some fo'
       \<and> fn_defaults fo' = None
       \<and> fn_kwdefaults fo' = Some [(''c'', PStr ''x'')])
   \<and> (\<exists>h' r fo'.
         overwrite_defaults [Function example_function] 0 [] example_signature = (h', Inr r)
       \<and> inner_function h' r = Some fo'
       \<and> fn_defaults fo' = None
       \<and> fn_kwdefaults fo' = None)"
proof -
  let ?old = "old_kwarg_defaults_of example_function"
  have i: "inner_function [Function example_function] 0 = Some example_function"
    by (simp add: inner_function_def deref_def)
  have a: "goes_to_kwdefaults ?old example_signature ''a'' = Inr False"
    by (simp add: goes_to_kwdefaults_def dict_get_truthy_def old_kwarg_defaults_of_def
        example_function_def example_signature_def example_parameter_def)
  have c: "goes_to_kwdefaults ?old example_signature ''c'' = Inr True"
    by (simp add: goes_to_kwdefaults_def dict_get_truthy_def old_kwarg_defaults_of_def
        example_function_def example_signature_def example_parameter_def)
  have k: "\<And>ds. fst ` set ds \<subseteq> {''a'', ''c''} \<Longrightarrow>
      \<forall>n \<in> fst ` set ds. dict_get_truthy ?old n \<or> n \<in> fst ` set example_signature"
    by (auto simp: example_signature_def)
  have w1: "\<exists>h' r fo'.
         overwrite_defaults [Function example_function] 0 [(''a'', PInt 5), (''c'', PStr ''x'')]
           example_signature = (h', Inr r)
       \<and> inner_function h' r = Some fo'
       \<and> fn_defaults fo' = Some [PInt 5]
       \<and> fn_kwdefaults fo' = Some [(''c'', PStr ''x'')]"
    using overwrite_defaults_replaces_defaults[OF i, of "[(''a'', PInt 5), (''c'', PStr ''x'')]"
        example_signature] k[of "[(''a'', PInt 5), (''c'', PStr ''x'')]"] a c
    by (simp, blast?)
  have w2: "\<exists>h' r fo'.
         overwrite_defaults [Function example_function] 0 [(''a'', PInt 5)]
           example_signature = (h', Inr r)
       \<and> inner_function h' r = Some fo'
       \<and> fn_defaults fo' = Some [PInt 5]
       \<and> fn_kwdefaults fo' = None"
    using overwrite_defaults_replaces_defaults[OF i, of "[(''a'', PInt 5)]" example_signature]
      k[of "[(''a'', PInt 5)]"] a
    by (simp, blast?)
  have w3: "\<exists>h' r fo'.
         overwrite_defaults [Function example_function] 0 [(''c'', PStr ''x'')]
           example_signature = (h', Inr r)
       \<and> inner_function h' r = Some fo'
       \<and> fn_defaults fo' = None
       \<and> fn_kwdefaults fo' = Some [(''c'', PStr ''x'')]"
    using overwrite_defaults_replaces_defaults[OF i, of "[(''c'', PStr ''x'')]" example_signature]
      k[of "[(''c'', PStr ''x'')]"] c
    by (simp, blast?)
  have w4: "\<exists>h' r fo'.
         overwrite_defaults [Function example_function] 0 [] example_signature = (h', Inr r)
       \<and> inner_function h' r = Some fo'
       \<and> fn_defaults fo' = None
       \<and> fn_kwdefaults fo' = None"
    using overwrite_defaults_replaces_defaults[OF i, of "[]" example_signature]
    by (simp, blast?)
  from i w1 w2 w3 w4 show ?thesis by blast
qed

text \<open>
  C4. The test of the loop asks for the truth value of the old keyword-only default, not
  for its presence. The first call is the helper's own, on
  \<^verbatim>\<open>functools.partial(pair, a="x")\<close> with the signature in which \<open>a\<close> and \<open>b\<close> are
  keyword-only: it leaves \<open>pair\<close> with the keyword-only defaults \<open>"x"\<close> for \<open>a\<close> and
  \<open>""\<close> for \<open>b\<close>. The second call is on \<open>pair\<close> itself, with the signature in which
  \<open>a\<close> and \<open>b\<close> are positional-or-keyword and the value \<open>None\<close> for both. Both
  parameters already have a keyword-only default; \<open>a\<close>, whose old default tests true,
  is installed in the keyword-only defaults, and \<open>b\<close>, whose old default is the empty
  string, is appended to the positional defaults.
\<close>

theorem overwrite_defaults_truth_test:
  "overwrite_defaults [Function pair_function, Partial 0 [] [(''a'', PStr ''x'')]] 1
     [(''a'', PStr ''x''), (''b'', PStr [])] pair_signature_bound
   = ([Function (pair_function\<lparr>fn_defaults := None,
                   fn_kwdefaults := Some [(''a'', PStr ''x''), (''b'', PStr [])]\<rparr>),
       Partial 0 [] [(''a'', PStr ''x'')], Partial 0 [] [(''a'', PStr ''x'')],
       Partial 0 [] [(''a'', PStr ''x'')]],
      Inr 3)
   \<and> overwrite_defaults
       [Function (pair_function\<lparr>fn_defaults := None,
                   fn_kwdefaults := Some [(''a'', PStr ''x''), (''b'', PStr [])]\<rparr>),
        Partial 0 [] [(''a'', PStr ''x'')], Partial 0 [] [(''a'', PStr ''x'')],
        Partial 0 [] [(''a'', PStr ''x'')]] 0
       [(''a'', PNone), (''b'', PNone)] pair_signature
   = ([Function (pair_function\<lparr>fn_defaults := Some [PNone],
                   fn_kwdefaults := Some [(''a'', PNone)]\<rparr>),
       Partial 0 [] [(''a'', PStr ''x'')], Partial 0 [] [(''a'', PStr ''x'')],
       Partial 0 [] [(''a'', PStr ''x'')]],
      Inr 0)"
  by (simp add: overwrite_defaults_def copy_copy_def deref_def goes_to_kwdefaults_def
      dict_get_truthy_def none_if_empty_def pair_function_def pair_signature_def
      pair_signature_bound_def)

text \<open>
  C3. The helper does not work on a copy. For a function object the address returned is
  the address passed in, and the object there has the new defaults: \<open>cmd\<close> had the
  positional defaults (marker, 9) and the keyword-only defaults of \<open>c\<close> and \<open>z\<close>, and
  has (5, 9) and none after the call. For a partial object (address 1, around the
  function at address 0, with one pre-bound argument) the result is a new partial object
  with the same pre-bound argument, the partial object passed in is itself unchanged,
  but the function it wraps, which the copy shares with it, has the new defaults.
\<close>

theorem overwrite_defaults_mutates_original:
  "overwrite_defaults [Function example_function] 0 [(''a'', PInt 5), (''b'', PInt 9)]
     example_signature =
     ([Function (example_function\<lparr>fn_defaults := Some [PInt 5, PInt 9], fn_kwdefaults := None\<rparr>)],
      Inr 0)
   \<and> overwrite_defaults [Function example_function, Partial 0 [PNone] []] 1
     [(''a'', PInt 5), (''b'', PInt 9)] example_signature =
     ([Function (example_function\<lparr>fn_defaults := Some [PInt 5, PInt 9], fn_kwdefaults := None\<rparr>),
       Partial 0 [PNone] [], Partial 0 [PNone] [], Partial 0 [PNone] []],
      Inr 3)"
  by (simp add: overwrite_defaults_def copy_copy_def deref_def goes_to_kwdefaults_def
      dict_get_truthy_def none_if_empty_def keyword_only_def
      example_function_def example_signature_def example_parameter_def)

subsection \<open>The transport patch\<close>

text \<open>
  C9. The handler that \<open>login\<close> installs never returns text: whatever the fast codec
  encodes, decoding asks for the encoding "utf-9", which no codec has, so every call
  ends in LookupError (or in the encoder's own exception). This holds for the handler
  itself and for the serializer of the session after a login on a client that has a
  session; on a client without session \<open>login\<close> raises AttributeError and installs
  nothing.
\<close>

theorem login_handler_never_returns_text:
  "(case session (fst (login super_login dumps decode_with (self\<lparr>session := Some sn\<rparr>) token)) of
      None \<Rightarrow> None
    | Some sn' \<Rightarrow> Some (json_serialize sn' obj))
   = Some (case dumps obj of
             Inl e \<Rightarrow> Inl e
           | Inr bs \<Rightarrow> Inl (LookupError ''unknown encoding: utf-9''))
   \<and> orjson_dumps_handler dumps decode_with obj =
       (case dumps obj of
          Inl e \<Rightarrow> Inl e
        | Inr bs \<Rightarrow> Inl (LookupError ''unknown encoding: utf-9''))
   \<and> login super_login dumps decode_with (self\<lparr>session := Some sn\<rparr>) token =
       (self\<lparr>session := Some (sn\<lparr>json_serialize := orjson_dumps_handler dumps decode_with\<rparr>)\<rparr>,
        Inr (super_login (self\<lparr>session := Some sn\<rparr>) token))
   \<and> login super_login dumps decode_with (self\<lparr>session := None\<rparr>) token =
       (self\<lparr>session := None\<rparr>, Inl (AttributeError ''_json_serialize''))"
  by (simp add: login_def orjson_dumps_handler_def bytes_decode_def codecs_lookup_def
      normalize_encoding_def lower_char_def codec_table_def split: sum.splits)

subsection \<open>Converter normalization\<close>

text \<open>
  C5. The count the source dispatches on is not always the positional-parameter count.
  For the bound method \<open>parser.parse\<close>, which takes one positional argument, the
  argument count of the code object includes \<open>self\<close>: the method is returned as it is,
  and called with (context, value) it raises. For the builtin \<open>parse(value, /, *,
  strict=False)\<close>, which has no code object, the keyword-only parameter is counted
  too, with the same result. The plain function \<open>twice\<close>, with one positional
  parameter as well, is wrapped, and the wrapper called with (context, value) returns
  what the function returns on the value.
\<close>

theorem get_converter_miscounts:
  "get_converter (utils_get_from_anno_type example_env) (get_converter_function example_env)
     (Routine bound_parse) ''who'' = Inr (Some bound_parse)
   \<and> signature_kinds bound_parse = Inr [POSITIONAL_OR_KEYWORD]
   \<and> positional_parameter_count [POSITIONAL_OR_KEYWORD] = 1
   \<and> invoke bound_parse [PObj 1 True, PStr ''5'']
       = Inl (TypeError ''parse() takes 2 positional arguments'')
   \<and> get_converter (utils_get_from_anno_type example_env) (get_converter_function example_env)
     (Routine example_builtin) ''who'' = Inr (Some example_builtin)
   \<and> signature_kinds example_builtin = Inr [POSITIONAL_ONLY, KEYWORD_ONLY]
   \<and> positional_parameter_count [POSITIONAL_ONLY, KEYWORD_ONLY] = 1
   \<and> invoke example_builtin [PObj 1 True, PStr ''5'']
       = Inl (TypeError ''parse() takes exactly one positional argument'')
   \<and> get_converter (utils_get_from_anno_type example_env) (get_converter_function example_env)
     (Routine twice) ''who'' = Inr (Some (one_arg_convert twice))
   \<and> signature_kinds twice = Inr [POSITIONAL_OR_KEYWORD]
   \<and> invoke (one_arg_convert twice) [PObj 1 True, PStr ''abc''] = Inr (PTuple [PStr ''abc'', PStr ''abc''])"
  by (simp add: get_converter_def unwrap_annotated_def num_params_def example_builtin_def
      bound_parse_def twice_def one_arg_convert_def positional_parameter_count_def)

subsection \<open>Introspection\<close>

text \<open>
  C6 (as amended). The default and requiredness of a parameter are what the chain of
  the specification says, with one exception: a plain default that is the no-default
  sentinel itself counts as no default for the rule on optional annotations, so with an
  optional annotation the default is \<open>None\<close> (the option is marked not required
  either way). The witness runs the determination on a marker without default and an
  optional annotation (\<open>None\<close>, not required), a marker with the default 5, a marker
  that supplied its type, a plain default 3, and no default with and without an optional
  annotation; and it runs the whole loop body on a parameter without marker, default and
  optional annotation (a required option, the sentinel as default) and on the marker
  without default.
\<close>

theorem determine_default_precedence:
  "determine_default is_optional param option =
     (if p_default param = Plain PMissing \<and> is_optional (p_annotation param)
      then (option\<lparr>opt_required := False\<rparr>, PNone)
      else stated_default is_optional param option)"
  by (auto simp: determine_default_def stated_default_def param_info_of_def
      split: param_default.splits)

theorem determine_default_precedence_witness:
  "determine_default (utils_is_optional example_env)
     \<lparr>p_name = ''who'', p_kind = POSITIONAL_OR_KEYWORD,
      p_default = Marker example_marker, p_annotation = OtherAnno 1\<rparr>
     (generate_option example_env example_marker)
   = ((generate_option example_env example_marker)\<lparr>opt_required := False\<rparr>, PNone)
   \<and> determine_default (utils_is_optional example_env)
     \<lparr>p_name = ''who'', p_kind = POSITIONAL_OR_KEYWORD,
      p_default = Marker (example_marker\<lparr>pi_default := PInt 5\<rparr>), p_annotation = OtherAnno 1\<rparr>
     (generate_option example_env (example_marker\<lparr>pi_default := PInt 5\<rparr>))
   = (generate_option example_env (example_marker\<lparr>pi_default := PInt 5\<rparr>), PInt 5)
   \<and> determine_default (utils_is_optional example_env)
     \<lparr>p_name = ''who'', p_kind = POSITIONAL_OR_KEYWORD,
      p_default = Marker (example_marker\<lparr>pi_type := Some STRING, pi_user_provided_type := True\<rparr>),
      p_annotation = OtherAnno 1\<rparr>
     (generate_option example_env (example_marker\<lparr>pi_type := Some STRING, pi_user_provided_type := True\<rparr>))
   = (generate_option example_env (example_marker\<lparr>pi_type := Some STRING, pi_user_provided_type := True\<rparr>),
      PMissing)
   \<and> determine_default (utils_is_optional example_env)
     \<lparr>p_name = ''n'', p_kind = POSITIONAL_OR_KEYWORD,
      p_default = Plain (PInt 3), p_annotation = OtherAnno 1\<rparr>
     \<lparr>opt_name = Some ''n'', opt_type = Some INTEGER,
      opt_description = PStr ''No Description Set'', opt_required = True, opt_channel_types = []\<rparr>
   = (\<lparr>opt_name = Some ''n'', opt_type = Some INTEGER,
       opt_description = PStr ''No Description Set'', opt_required = False, opt_channel_types = []\<rparr>,
      PInt 3)
   \<and> determine_default (utils_is_optional example_env)
     \<lparr>p_name = ''who'', p_kind = POSITIONAL_OR_KEYWORD,
      p_default = Empty, p_annotation = OtherAnno 1\<rparr>
     \<lparr>opt_name = Some ''who'', opt_type = Some STRING,
      opt_description = PStr ''No Description Set'', opt_required = True, opt_channel_types = []\<rparr>
   = (\<lparr>opt_name = Some ''who'', opt_type = Some STRING,
       opt_description = PStr ''No Description Set'', opt_required = False, opt_channel_types = []\<rparr>,
      PNone)
   \<and> determine_default (utils_is_optional example_env)
     \<lparr>p_name = ''who'', p_kind = POSITIONAL_OR_KEYWORD,
      p_default = Empty, p_annotation = OtherAnno 0\<rparr>
     \<lparr>opt_name = Some ''who'', opt_type = Some STRING,
      opt_description = PStr ''No Description Set'', opt_required = True, opt_channel_types = []\<rparr>
   = (\<lparr>opt_name = Some ''who'', opt_type = Some STRING,
       opt_description = PStr ''No Description Set'', opt_required = True, opt_channel_types = []\<rparr>,
      PMissing)
   \<and> parse_param example_env []
     \<lparr>p_name = ''who'', p_kind = POSITIONAL_OR_KEYWORD,
      p_default = Empty, p_annotation = OtherAnno 0\<rparr>
   = Inr (Some
       (\<lparr>opt_name = Some ''who'', opt_type = Some STRING,
         opt_description = PStr ''No Description Set'', opt_required = True,
         opt_channel_types = []\<rparr>,
        \<lparr>cp_name = ''who'', cp_argument_name = ''who'', cp_default = PMissing,
         cp_type = None, cp_converter = None\<rparr>))
   \<and> parse_param example_env []
     \<lparr>p_name = ''who'', p_kind = POSITIONAL_OR_KEYWORD,
      p_default = Marker example_marker, p_annotation = OtherAnno 1\<rparr>
   = Inr (Some
       (\<lparr>opt_name = Some ''who'', opt_type = Some STRING,
         opt_description = PStr ''No Description Set'', opt_required = False,
         opt_channel_types = []\<rparr>,
        \<lparr>cp_name = ''who'', cp_argument_name = ''who'', cp_default = PNone,
         cp_type = None, cp_converter = None\<rparr>))"
  by (simp add: determine_default_precedence stated_default_def example_env_def
      example_marker_def parse_param_def initial_option_def param_info_of_def
      apply_describe_def resolved_name_def resolve_type_def get_option_for_def
      resolve_channels_def resolve_converter_def get_converter_def unwrap_annotated_def)

text \<open>
  C6 as stated fails for \<^verbatim>\<open>who: Optional[str] = MISSING\<close>: the parameter has a plain
  default, which by the claim is used as the operational default; the source marks the
  option not required and then, the default being the sentinel, makes it \<open>None\<close>.
\<close>

theorem determine_default_plain_sentinel:
  "determine_default (utils_is_optional example_env)
     \<lparr>p_name = ''who'', p_kind = POSITIONAL_OR_KEYWORD,
      p_default = Plain PMissing, p_annotation = OtherAnno 1\<rparr>
     \<lparr>opt_name = Some ''who'', opt_type = Some STRING,
      opt_description = PStr ''No Description Set'', opt_required = True, opt_channel_types = []\<rparr>
   = (\<lparr>opt_name = Some ''who'', opt_type = Some STRING,
       opt_description = PStr ''No Description Set'', opt_required = False, opt_channel_types = []\<rparr>,
      PNone)
   \<and> stated_default (utils_is_optional example_env)
     \<lparr>p_name = ''who'', p_kind = POSITIONAL_OR_KEYWORD,
      p_default = Plain PMissing, p_annotation = OtherAnno 1\<rparr>
     \<lparr>opt_name = Some ''who'', opt_type = Some STRING,
      opt_description = PStr ''No Description Set'', opt_required = True, opt_channel_types = []\<rparr>
   = (\<lparr>opt_name = Some ''who'', opt_type = Some STRING,
       opt_description = PStr ''No Description Set'', opt_required = False, opt_channel_types = []\<rparr>,
      PMissing)"
  by (simp add: determine_default_def stated_default_def param_info_of_def example_env_def)

lemma overwrite_with_parameters_frame:
  "\<exists>cb. snd (fst (overwrite_with_parameters h self)) = self\<lparr>cmd_callback := cb\<rparr>"
proof (cases "cmd_inspect_signature self")
  case None
  then show ?thesis
    by (intro exI[of _ "cmd_callback self"]) (simp add: overwrite_with_parameters_def)
next
  case (Some sg)
  show ?thesis
  proof (cases "cmd_callback self")
    case None
    then show ?thesis using Some
      by (intro exI[of _ "cmd_callback self"]) (simp add: overwrite_with_parameters_def)
  next
    case (Some cb)
    obtain h' res where r: "overwrite_defaults h cb (parameter_defaults self) sg = (h', res)"
      by (cases "overwrite_defaults h cb (parameter_defaults self) sg")
    show ?thesis
    proof (cases res)
      case (Inl e)
      then show ?thesis using Some \<open>cmd_inspect_signature self = Some sg\<close> r
        by (intro exI[of _ "cmd_callback self"]) (simp add: overwrite_with_parameters_def)
    next
      case (Inr a)
      then show ?thesis using Some \<open>cmd_inspect_signature self = Some sg\<close> r
        by (intro exI[of _ "Some a"]) (simp add: overwrite_with_parameters_def)
    qed
  qed
qed

text \<open>
  C2. On a command whose parameter mapping is not empty, introspection is the
  default-overwrite step alone (and nothing at all for a command without callback): the
  command afterwards differs from the command before in the callback at most, so the
  option list, the parameter mapping and the cached signature are exactly as they were,
  whether the step returns or raises.
\<close>

theorem parse_parameters_keeps_table:
  assumes "cmd_parameters self \<noteq> []"
  shows "parse_parameters env h self =
           (if cmd_callback self = None then ((h, self), None)
            else overwrite_with_parameters h self)
    \<and> (\<exists>cb. snd (fst (parse_parameters env h self)) = self\<lparr>cmd_callback := cb\<rparr>)
    \<and> cmd_options (snd (fst (parse_parameters env h self))) = cmd_options self
    \<and> cmd_parameters (snd (fst (parse_parameters env h self))) = cmd_parameters self
    \<and> cmd_inspect_signature (snd (fst (parse_parameters env h self))) = cmd_inspect_signature self"
proof -
  have eq: "parse_parameters env h self =
           (if cmd_callback self = None then ((h, self), None)
            else overwrite_with_parameters h self)"
    using assms by (simp add: parse_parameters_def split: option.splits)
  have fr: "\<exists>cb. snd (fst (parse_parameters env h self)) = self\<lparr>cmd_callback := cb\<rparr>"
  proof (cases "cmd_callback self")
    case None
    then show ?thesis using eq by (intro exI[of _ "cmd_callback self"]) simp
  next
    case (Some cb)
    then show ?thesis using eq overwrite_with_parameters_frame[of h self] by simp
  qed
  then obtain cb where c: "snd (fst (parse_parameters env h self)) = self\<lparr>cmd_callback := cb\<rparr>"
    by blast
  show ?thesis using eq fr c by simp
qed

text \<open>
  The first introspection of \<open>greet_command\<close> builds two options and two parameter
  records and rewrites the defaults of \<open>greet\<close> to (None, 3).
\<close>

lemma greet_first_run:
  "parse_parameters example_env [Function greet_function] greet_command =
     (([Function (greet_function\<lparr>fn_defaults := Some [PNone, PInt 3], fn_kwdefaults := None\<rparr>)],
       greet_introspected), None)"
  by (simp add: parse_parameters_def greet_command_def example_env_def greet_signature_def
      tansy_describe_def deref_def greet_function_def parse_param_def initial_option_def
      param_info_of_def example_marker_def apply_describe_def resolved_name_def
      resolve_type_def get_option_for_def determine_default_def resolve_channels_def
      resolve_converter_def get_converter_def unwrap_annotated_def
      overwrite_with_parameters_def parameter_defaults_def dict_of_def optional_def
      overwrite_defaults_def copy_copy_def goes_to_kwdefaults_def dict_get_truthy_def
      none_if_empty_def greet_introspected_def)

theorem parse_parameters_keeps_table_witness:
  "cmd_parameters greet_introspected \<noteq> []
   \<and> parse_parameters example_env [Function greet_function] greet_command =
     (([Function (greet_function\<lparr>fn_defaults := Some [PNone, PInt 3], fn_kwdefaults := None\<rparr>)],
       greet_introspected), None)
   \<and> cmd_options (snd (fst (parse_parameters example_env
         [Function (greet_function\<lparr>fn_defaults := Some [PNone, PInt 3], fn_kwdefaults := None\<rparr>)]
         greet_introspected))) = cmd_options greet_introspected
   \<and> cmd_parameters (snd (fst (parse_parameters example_env
         [Function (greet_function\<lparr>fn_defaults := Some [PNone, PInt 3], fn_kwdefaults := None\<rparr>)]
         greet_introspected))) = cmd_parameters greet_introspected"
proof -
  have ne: "cmd_parameters greet_introspected \<noteq> []"
    by (simp add: greet_introspected_def)
  show ?thesis
    using parse_parameters_keeps_table[OF ne, of example_env
        "[Function (greet_function\<lparr>fn_defaults := Some [PNone, PInt 3], fn_kwdefaults := None\<rparr>)]"]
      ne greet_first_run
    by blast
qed

subsection \<open>Invocation\<close>

lemma remap_kwargs_step:
  "remap_kwargs ps ctx ((k, v) # rest) acc =
     (case delivered_value ps ctx k v of
        Inl x \<Rightarrow> Inl x
      | Inr c \<Rightarrow> remap_kwargs ps ctx rest (AList.update (target_key ps k) c acc))"
  by (simp add: delivered_value_def target_key_def split: option.splits sum.splits)

lemma remap_kwargs_append:
  "map (\<lambda>e. delivered_value ps ctx (fst e) (snd e)) kw = map (\<lambda>e. Inr (snd e)) new \<Longrightarrow>
   map (\<lambda>e. target_key ps (fst e)) kw = map fst new \<Longrightarrow>
   distinct (map fst new) \<Longrightarrow> fst ` set new \<inter> fst ` set acc = {} \<Longrightarrow>
   remap_kwargs ps ctx kw acc = Inr (acc @ new)"
proof (induction kw arbitrary: new acc)
  case Nil
  then show ?case by simp
next
  case (Cons e kw)
  obtain k v where e: "e = (k, v)" by (cases e)
  obtain t c new' where new: "new = (t, c) # new'"
    using Cons.prems(1) by (cases new) auto
  have dv: "delivered_value ps ctx k v = Inr c" and tk: "target_key ps k = t"
    using Cons.prems(1,2) e new by auto
  have fresh: "t \<notin> fst ` set acc" using Cons.prems(4) new by auto
  have r1: "map (\<lambda>e. delivered_value ps ctx (fst e) (snd e)) kw = map (\<lambda>e. Inr (snd e)) new'"
    using Cons.prems(1) new by simp
  have r2: "map (\<lambda>e. target_key ps (fst e)) kw = map fst new'"
    using Cons.prems(2) new by simp
  have r3: "distinct (map fst new')" using Cons.prems(3) new by simp
  have r4: "fst ` set new' \<inter> fst ` set (acc @ [(t, c)]) = {}"
    using Cons.prems(3,4) new by auto
  show ?case
    using Cons.IH[OF r1 r2 r3 r4] e dv tk fresh new
    by (simp add: remap_kwargs_step update_fresh del: remap_kwargs.simps)
qed

lemma delivered_items:
  assumes "\<forall>e \<in> set kw. \<exists>c. delivered_value ps ctx (fst e) (snd e) = Inr c"
  shows "\<exists>new. map (\<lambda>e. delivered_value ps ctx (fst e) (snd e)) kw = map (\<lambda>e. Inr (snd e)) new
           \<and> map (\<lambda>e. target_key ps (fst e)) kw = map fst new"
  using assms
proof (induction kw)
  case Nil
  then show ?case by simp
next
  case (Cons e kw)
  then obtain new where n: "map (\<lambda>e. delivered_value ps ctx (fst e) (snd e)) kw = map (\<lambda>e. Inr (snd e)) new"
    "map (\<lambda>e. target_key ps (fst e)) kw = map fst new" by auto
  obtain c where c: "delivered_value ps ctx (fst e) (snd e) = Inr c" using Cons.prems by auto
  show ?case
    by (rule exI[of _ "(target_key ps (fst e), c) # new"]) (simp add: n c)
qed

text \<open>The first converter that raises ends the loop with its exception.\<close>

lemma remap_kwargs_raises:
  "\<forall>e \<in> set pre. \<exists>c. delivered_value ps ctx (fst e) (snd e) = Inr c \<Longrightarrow>
   delivered_value ps ctx k v = Inl x \<Longrightarrow>
   remap_kwargs ps ctx (pre @ (k, v) # post) acc = Inl x"
proof (induction pre arbitrary: acc)
  case Nil
  then show ?case by (simp add: remap_kwargs_step del: remap_kwargs.simps)
next
  case (Cons e pre)
  obtain k1 v1 where e: "e = (k1, v1)" by (cases e)
  obtain c where c: "delivered_value ps ctx k1 v1 = Inr c" using Cons.prems(1) e by auto
  have rest: "\<forall>e \<in> set pre. \<exists>c. delivered_value ps ctx (fst e) (snd e) = Inr c"
    using Cons.prems(1) by simp
  show ?case
    using Cons.IH[OF rest Cons.prems(2)] e c
    by (simp add: remap_kwargs_step del: remap_kwargs.simps)
qed

text \<open>
  C1 (as amended). With an empty parameter table the incoming mapping is forwarded to the
  callback unchanged. With a non-empty table, when no two incoming keys are written
  under the same keyword: if every converter returns, the callback arguments are, entry
  by entry in the order of the incoming mapping, the target keyword with the delivered
  value; if a converter raises, the exception of the first one that does is the outcome
  and the callback is not called. A key without entry in the table keeps its key and its
  value; a key with an entry goes under the entry's argument name, with the raw value
  when the entry has no converter and with the converter's result on (context, raw
  value) when it has one.
\<close>

theorem call_callback_remaps:
  assumes "distinct (map (\<lambda>e. target_key (cmd_parameters self) (fst e)) (ctx_kwargs ctx))"
  shows "(cmd_parameters self = [] \<longrightarrow>
            call_callback cwb self callback ctx = callback [ctx_object ctx] (ctx_kwargs ctx))
    \<and> (cmd_parameters self \<noteq> [] \<longrightarrow>
        (\<forall>e \<in> set (ctx_kwargs ctx).
           \<exists>c. delivered_value (cmd_parameters self) (ctx_object ctx) (fst e) (snd e) = Inr c) \<longrightarrow>
          (\<exists>new_kwargs.
             call_callback cwb self callback ctx = cwb self callback [ctx_object ctx] new_kwargs
           \<and> map fst new_kwargs =
               map (\<lambda>e. target_key (cmd_parameters self) (fst e)) (ctx_kwargs ctx)
           \<and> map (\<lambda>e. Inr (snd e)) new_kwargs =
               map (\<lambda>e. delivered_value (cmd_parameters self) (ctx_object ctx) (fst e) (snd e))
                 (ctx_kwargs ctx)))
    \<and> (cmd_parameters self \<noteq> [] \<longrightarrow>
        ctx_kwargs ctx = pre @ (k1, v1) # post \<longrightarrow>
        (\<forall>e \<in> set pre.
           \<exists>c. delivered_value (cmd_parameters self) (ctx_object ctx) (fst e) (snd e) = Inr c) \<longrightarrow>
        delivered_value (cmd_parameters self) (ctx_object ctx) k1 v1 = Inl x \<longrightarrow>
          call_callback cwb self callback ctx = Inl x)
    \<and> (map_of (cmd_parameters self) k = None \<longrightarrow>
          target_key (cmd_parameters self) k = k
        \<and> delivered_value (cmd_parameters self) (ctx_object ctx) k v = Inr v)
    \<and> (map_of (cmd_parameters self) k = Some p \<and> cp_converter p = None \<longrightarrow>
          target_key (cmd_parameters self) k = cp_argument_name p
        \<and> delivered_value (cmd_parameters self) (ctx_object ctx) k v = Inr v)
    \<and> (map_of (cmd_parameters self) k = Some p \<and> cp_converter p = Some conv \<longrightarrow>
          target_key (cmd_parameters self) k = cp_argument_name p
        \<and> delivered_value (cmd_parameters self) (ctx_object ctx) k v
            = invoke conv [ctx_object ctx, v])"
proof -
  let ?ps = "cmd_parameters self"
  let ?dv = "\<lambda>e. delivered_value ?ps (ctx_object ctx) (fst e) (snd e)"
  have a: "cmd_parameters self = [] \<longrightarrow>
            call_callback cwb self callback ctx = callback [ctx_object ctx] (ctx_kwargs ctx)"
    by (simp add: call_callback_def)
  have b: "cmd_parameters self \<noteq> [] \<longrightarrow>
        (\<forall>e \<in> set (ctx_kwargs ctx). \<exists>c. ?dv e = Inr c) \<longrightarrow>
          (\<exists>new_kwargs.
             call_callback cwb self callback ctx = cwb self callback [ctx_object ctx] new_kwargs
           \<and> map fst new_kwargs = map (\<lambda>e. target_key ?ps (fst e)) (ctx_kwargs ctx)
           \<and> map (\<lambda>e. Inr (snd e)) new_kwargs = map ?dv (ctx_kwargs ctx))"
  proof (intro impI)
    assume ne: "cmd_parameters self \<noteq> []"
      and ok: "\<forall>e \<in> set (ctx_kwargs ctx). \<exists>c. ?dv e = Inr c"
    obtain new where n1: "map ?dv (ctx_kwargs ctx) = map (\<lambda>e. Inr (snd e)) new"
      and n2: "map (\<lambda>e. target_key ?ps (fst e)) (ctx_kwargs ctx) = map fst new"
      using delivered_items[OF ok] by blast
    have d: "distinct (map fst new)" using assms n2 by simp
    have r: "remap_kwargs ?ps (ctx_object ctx) (ctx_kwargs ctx) [] = Inr ([] @ new)"
      using n1 n2 d by (intro remap_kwargs_append) auto
    have "call_callback cwb self callback ctx = cwb self callback [ctx_object ctx] new"
      using ne r by (simp add: call_callback_def)
    then show "\<exists>new_kwargs.
             call_callback cwb self callback ctx = cwb self callback [ctx_object ctx] new_kwargs
           \<and> map fst new_kwargs = map (\<lambda>e. target_key ?ps (fst e)) (ctx_kwargs ctx)
           \<and> map (\<lambda>e. Inr (snd e)) new_kwargs = map ?dv (ctx_kwargs ctx)"
      using n1 n2 by (intro exI[of _ new]) simp
  qed
  have c: "cmd_parameters self \<noteq> [] \<longrightarrow>
        ctx_kwargs ctx = pre @ (k1, v1) # post \<longrightarrow>
        (\<forall>e \<in> set pre. \<exists>c. ?dv e = Inr c) \<longrightarrow>
        delivered_value ?ps (ctx_object ctx) k1 v1 = Inl x \<longrightarrow>
          call_callback cwb self callback ctx = Inl x"
  proof (intro impI)
    assume ne: "cmd_parameters self \<noteq> []"
      and sp: "ctx_kwargs ctx = pre @ (k1, v1) # post"
      and ok: "\<forall>e \<in> set pre. \<exists>c. ?dv e = Inr c"
      and bad: "delivered_value ?ps (ctx_object ctx) k1 v1 = Inl x"
    have "remap_kwargs ?ps (ctx_object ctx) (pre @ (k1, v1) # post) [] = Inl x"
      using ok bad by (rule remap_kwargs_raises)
    then show "call_callback cwb self callback ctx = Inl x"
      using ne sp by (simp add: call_callback_def)
  qed
  have d: "(map_of ?ps k = None \<longrightarrow>
          target_key ?ps k = k \<and> delivered_value ?ps (ctx_object ctx) k v = Inr v)
    \<and> (map_of ?ps k = Some p \<and> cp_converter p = None \<longrightarrow>
          target_key ?ps k = cp_argument_name p
        \<and> delivered_value ?ps (ctx_object ctx) k v = Inr v)
    \<and> (map_of ?ps k = Some p \<and> cp_converter p = Some conv \<longrightarrow>
          target_key ?ps k = cp_argument_name p
        \<and> delivered_value ?ps (ctx_object ctx) k v = invoke conv [ctx_object ctx, v])"
    by (simp add: target_key_def delivered_value_def convert_value_def)
  from a b c d show ?thesis by blast
qed

theorem call_callback_remaps_witness:
  "target_key (amount_table (Some (one_arg_convert twice))) ''amount'' = ''qty''
   \<and> target_key (amount_table (Some (one_arg_convert twice))) ''extra'' = ''extra''
   \<and> delivered_value (amount_table (Some (one_arg_convert twice))) (PObj 1 True) ''amount''
        (PStr ''abc'') = Inr (PTuple [PStr ''abc'', PStr ''abc''])
   \<and> call_callback unbound_call_with_binding
        (greet_command\<lparr>cmd_parameters := amount_table (Some (one_arg_convert twice))\<rparr>)
        echo_callback
        \<lparr>ctx_object = PObj 1 True, ctx_kwargs = [(''amount'', PStr ''abc''), (''extra'', PBool True)]\<rparr>
      = Inr (PTuple [PObj 1 True, PStr ''qty'', PTuple [PStr ''abc'', PStr ''abc''], PStr ''extra'', PBool True])
   \<and> delivered_value (amount_table (Some (one_arg_convert twice))) (PObj 1 True) ''amount''
        (PStr []) = Inl (ValueError ''empty'')
   \<and> call_callback unbound_call_with_binding
        (greet_command\<lparr>cmd_parameters := amount_table (Some (one_arg_convert twice))\<rparr>)
        echo_callback
        \<lparr>ctx_object = PObj 1 True, ctx_kwargs = [(''extra'', PBool True), (''amount'', PStr [])]\<rparr>
      = Inl (ValueError ''empty'')
   \<and> call_callback unbound_call_with_binding greet_command echo_callback
        \<lparr>ctx_object = PObj 1 True, ctx_kwargs = [(''amount'', PStr ''abc'')]\<rparr>
      = Inr (PTuple [PObj 1 True, PStr ''amount'', PStr ''abc''])"
proof -
  let ?tbl = "amount_table (Some (one_arg_convert twice))"
  let ?self = "greet_command\<lparr>cmd_parameters := ?tbl\<rparr>"
  let ?ctx = "\<lparr>ctx_object = PObj 1 True, ctx_kwargs = [(''amount'', PStr ''abc''), (''extra'', PBool True)]\<rparr>"
  let ?ctx2 = "\<lparr>ctx_object = PObj 1 True, ctx_kwargs = [(''amount'', PStr ''abc'')]\<rparr>"
  let ?ctx3 = "\<lparr>ctx_object = PObj 1 True, ctx_kwargs = [(''extra'', PBool True), (''amount'', PStr [])]\<rparr>"
  have t1: "target_key ?tbl ''amount'' = ''qty''" and t2: "target_key ?tbl ''extra'' = ''extra''"
    by (simp_all add: target_key_def amount_table_def)
  have d1: "delivered_value ?tbl (PObj 1 True) ''amount'' (PStr ''abc'') = Inr (PTuple [PStr ''abc'', PStr ''abc''])"
    by (simp add: delivered_value_def amount_table_def convert_value_def one_arg_convert_def
        twice_def)
  have d2: "delivered_value ?tbl (PObj 1 True) ''extra'' (PBool True) = Inr (PBool True)"
    by (simp add: delivered_value_def amount_table_def)
  have d3: "delivered_value ?tbl (PObj 1 True) ''amount'' (PStr [])
      = Inl (ValueError ''empty'')"
    by (simp add: delivered_value_def amount_table_def convert_value_def one_arg_convert_def
        twice_def)
  have ne: "cmd_parameters ?self \<noteq> []" by (simp add: amount_table_def)
  have h1: "distinct (map (\<lambda>e. target_key (cmd_parameters ?self) (fst e)) (ctx_kwargs ?ctx))"
    using t1 t2 by simp
  have h2: "\<forall>e \<in> set (ctx_kwargs ?ctx).
           \<exists>c. delivered_value (cmd_parameters ?self) (ctx_object ?ctx) (fst e) (snd e) = Inr c"
    using d1 d2 by simp
  obtain new where c: "call_callback unbound_call_with_binding ?self echo_callback ?ctx
        = unbound_call_with_binding ?self echo_callback [ctx_object ?ctx] new"
    and k: "map fst new = map (\<lambda>e. target_key (cmd_parameters ?self) (fst e)) (ctx_kwargs ?ctx)"
    and v: "map (\<lambda>e. Inr (snd e)) new =
        map (\<lambda>e. delivered_value (cmd_parameters ?self) (ctx_object ?ctx) (fst e) (snd e))
          (ctx_kwargs ?ctx)"
    using call_callback_remaps[OF h1, of unbound_call_with_binding echo_callback] ne h2 by blast
  have new: "new = [(''qty'', PTuple [PStr ''abc'', PStr ''abc'']), (''extra'', PBool True)]"
    using k v t1 t2 d1 d2 by (auto simp: map_eq_Cons_conv)
  have r1: "call_callback unbound_call_with_binding ?self echo_callback ?ctx
      = Inr (PTuple [PObj 1 True, PStr ''qty'', PTuple [PStr ''abc'', PStr ''abc''], PStr ''extra'', PBool True])"
    using c new by (simp add: unbound_call_with_binding_def echo_callback_def)
  have h3: "distinct (map (\<lambda>e. target_key (cmd_parameters ?self) (fst e)) (ctx_kwargs ?ctx3))"
    using t1 t2 by simp
  have sp: "ctx_kwargs ?ctx3 = [(''extra'', PBool True)] @ (''amount'', PStr []) # []" by simp
  have ok3: "\<forall>e \<in> set [(''extra'', PBool True)].
           \<exists>c. delivered_value (cmd_parameters ?self) (ctx_object ?ctx3) (fst e) (snd e) = Inr c"
    using d2 by simp
  have bad3: "delivered_value (cmd_parameters ?self) (ctx_object ?ctx3) ''amount'' (PStr [])
      = Inl (ValueError ''empty'')"
    using d3 by simp
  have r3: "call_callback unbound_call_with_binding ?self echo_callback ?ctx3
      = Inl (ValueError ''empty'')"
    using call_callback_remaps[OF h3, of unbound_call_with_binding echo_callback
        "[(''extra'', PBool True)]" "''amount''" "PStr []" "[]" "ValueError ''empty''"]
      ne sp ok3 bad3 by blast
  have g1: "distinct (map (\<lambda>e. target_key (cmd_parameters greet_command) (fst e)) (ctx_kwargs ?ctx2))"
    by simp
  have e: "cmd_parameters greet_command = []" by (simp add: greet_command_def)
  have r2: "call_callback unbound_call_with_binding greet_command echo_callback ?ctx2
      = Inr (PTuple [PObj 1 True, PStr ''amount'', PStr ''abc''])"
    using call_callback_remaps[OF g1, of unbound_call_with_binding echo_callback] e
    by (simp add: echo_callback_def)
  from t1 t2 d1 r1 d3 r3 r2 show ?thesis by blast
qed

text \<open>
  C1 as stated fails when a key without entry in the table is also the argument name of
  another incoming key: \<open>qty\<close> has no entry and arrives with the value 1, \<open>amount\<close>
  is remapped to \<open>qty\<close> afterwards, and the callback receives \<open>qty\<close> with the value
  2.
\<close>

theorem call_callback_key_collision:
  "call_callback unbound_call_with_binding (greet_command\<lparr>cmd_parameters := amount_table None\<rparr>)
     echo_callback \<lparr>ctx_object = PObj 1 True, ctx_kwargs = [(''qty'', PInt 1), (''amount'', PInt 2)]\<rparr>
     = Inr (PTuple [PObj 1 True, PStr ''qty'', PInt 2])
   \<and> map_of (amount_table None) ''qty'' = None"
  by (simp add: call_callback_def amount_table_def convert_value_def
      unbound_call_with_binding_def echo_callback_def)

subsection \<open>Deriving a subcommand\<close>

text \<open>
  A callback that is not asynchronous: TypeError, and the closure, with the base command
  it holds, is as it was.
\<close>

lemma wrapper_not_coroutine:
  "\<not> iscoroutinefunction h call \<Longrightarrow>
   wrapper host_init h cl call = (cl, Inl (TypeError ''Subcommand must be coroutine''))"
  by (simp add: wrapper_def)

text \<open>
  C7. The fallback of the sub-description is stored in the decorator: the wrapper assigns
  it to the \<open>nonlocal\<close> variable. The decorator of \<open>greet_command.subcommand("sub")\<close>,
  made without sub-description, is applied to \<open>greet\<close> and then to \<open>wave\<close>: the
  second subcommand gets the documentation string of \<open>greet\<close>, not its own
  ("Waves."). A fresh decorator gives \<open>wave\<close> its own documentation string and gives
  \<open>silent\<close>, which has none, "No Description Set"; applied to a function that is no
  coroutine it raises TypeError with the message "Subcommand must be coroutine" and is
  itself, with the base command, unchanged.
\<close>

theorem subcommand_decorator_reuse:
  "(case snd (wrapper plain_host_init
               [Function greet_function, Function wave_function, Function silent_function,
                Function (greet_function\<lparr>fn_is_coroutine := False\<rparr>)]
               (fst (wrapper plain_host_init
                       [Function greet_function, Function wave_function, Function silent_function,
                        Function (greet_function\<lparr>fn_is_coroutine := False\<rparr>)]
                       (subcommand greet_command (PStr ''sub'') PNone PMissing PMissing False True)
                       0))
               1) of
      Inl e \<Rightarrow> None
    | Inr c \<Rightarrow> Some (cmd_sub_cmd_description c)) = Some (PStr ''Greets somebody.'')
   \<and> doc_of [Function greet_function, Function wave_function, Function silent_function,
              Function (greet_function\<lparr>fn_is_coroutine := False\<rparr>)] 1 = PStr ''Waves.''
   \<and> (case snd (wrapper plain_host_init
               [Function greet_function, Function wave_function, Function silent_function,
                Function (greet_function\<lparr>fn_is_coroutine := False\<rparr>)]
               (subcommand greet_command (PStr ''sub'') PNone PMissing PMissing False True)
               1) of
      Inl e \<Rightarrow> None
    | Inr c \<Rightarrow> Some (cmd_sub_cmd_description c)) = Some (PStr ''Waves.'')
   \<and> (case snd (wrapper plain_host_init
               [Function greet_function, Function wave_function, Function silent_function,
                Function (greet_function\<lparr>fn_is_coroutine := False\<rparr>)]
               (subcommand greet_command (PStr ''sub'') PNone PMissing PMissing False True)
               2) of
      Inl e \<Rightarrow> None
    | Inr c \<Rightarrow> Some (cmd_sub_cmd_description c)) = Some (PStr ''No Description Set'')
   \<and> wrapper plain_host_init
        [Function greet_function, Function wave_function, Function silent_function,
         Function (greet_function\<lparr>fn_is_coroutine := False\<rparr>)]
        (subcommand greet_command (PStr ''sub'') PNone PMissing PMissing False True) 3
      = (subcommand greet_command (PStr ''sub'') PNone PMissing PMissing False True,
         Inl (TypeError ''Subcommand must be coroutine''))"
  by (simp add: wrapper_def subcommand_def subcommand_arguments_def py_or_def doc_of_def
      deref_def iscoroutinefunction_def inner_function_def plain_host_init_def
      greet_function_def wave_function_def silent_function_def)

end
